theory Spec2Isabelle
  imports Complex_Main "HOL-Library.Sublist" "HOL-Library.Log_Nat"
begin

section \<open>The persisted store (database/setup.sql)\<close>

text \<open>
  The tables of \<^verbatim>\<open>setup.sql\<close> as records, a table as the list of its rows in
  scan order. A nullable column is an \<open>option\<close> (\<open>None\<close> is SQL's NULL); a column
  declared \<^verbatim>\<open>NOT NULL\<close> is a plain value. The serial \<^verbatim>\<open>id\<close>, the timestamps, the
  generated \<^verbatim>\<open>content_tsvector\<close> (a function of \<^verbatim>\<open>content\<close>), the ColBERT vectors and
  the free-form \<^verbatim>\<open>metadata\<close> are left out: no operation below reads them.
  A value of the SQL types \<^verbatim>\<open>real\<close> and \<^verbatim>\<open>double precision\<close> is a real number; the
  SQL type of a column is kept beside the values (\<open>sql_type\<close> below), since
  PL/pgSQL compares the types of a query's columns with the declared result columns.
\<close>

type_synonym vector = "real list"

record legal_document =
  doc_id :: string
  source :: string
  title :: "string option"
  content :: string
  embedding :: "vector option"
  doc_type :: "string option"
  jurisdiction :: "string option"
  year :: "int option"
  category :: "string option"
  tags :: "string list option"

record document_chunk =
  chunk_id :: string
  chunk_doc_id :: "string option"
  chunk_text :: string
  chunk_size :: "int option"
  chunk_index :: "int option"
  chunk_embedding :: "vector option"
  prev_chunk_id :: "string option"
  next_chunk_id :: "string option"
  parent_section :: "string option"

record relationship =
  rel_type :: string
  rel_target :: string
  rel_weight :: real

record kg_entity =
  entity_id :: string
  entity_type :: string
  entity_name :: string
  entity_embedding :: "vector option"
  relationships :: "relationship list option"
  source_doc_id :: "string option"

record store =
  legal_documents_2026 :: "legal_document list"
  document_chunks_2026 :: "document_chunk list"
  knowledge_graph_2026 :: "kg_entity list"

text \<open>The errors the statements below can raise: \<^verbatim>\<open>23505\<close> (unique_violation),
  \<^verbatim>\<open>2201W\<close> (a negative \<^verbatim>\<open>LIMIT\<close>), \<^verbatim>\<open>22003\<close> (integer out of range) and
  \<^verbatim>\<open>42804\<close> (datatype_mismatch).\<close>

datatype sql_error = UniqueViolation | NegativeLimit | IntegerOutOfRange | DatatypeMismatch

subsection \<open>Deleting a document: \<^verbatim>\<open>REFERENCES legal_documents_2026(doc_id) ON DELETE CASCADE\<close>\<close>

text \<open>
  The referential action of the foreign key on \<^verbatim>\<open>document_chunks_2026.doc_id\<close>: for
  a deleted parent row the chunk rows whose \<^verbatim>\<open>doc_id\<close> equals the parent's key are
  deleted. A chunk whose \<^verbatim>\<open>doc_id\<close> is NULL references nothing.
  \<^verbatim>\<open>knowledge_graph_2026.source_doc_id\<close> is no foreign key.
\<close>

definition ri_cascade_delete :: "legal_document \<Rightarrow> document_chunk list \<Rightarrow> document_chunk list" where
  "ri_cascade_delete old cs = filter (\<lambda>c. chunk_doc_id c \<noteq> Some (doc_id old)) cs"

text \<open>\<^verbatim>\<open>DELETE FROM legal_documents_2026 WHERE doc_id = d\<close>: the matching rows go,
  and the cascade runs once for each of them.\<close>

definition delete_document :: "string \<Rightarrow> store \<Rightarrow> store" where
  "delete_document d s =
     (let deleted = filter (\<lambda>x. doc_id x = d) (legal_documents_2026 s)
      in s\<lparr>legal_documents_2026 := filter (\<lambda>x. doc_id x \<noteq> d) (legal_documents_2026 s),
            document_chunks_2026 := foldr ri_cascade_delete deleted (document_chunks_2026 s)\<rparr>)"

section \<open>Store-level hybrid search: \<^verbatim>\<open>hybrid_search_2026\<close>\<close>

text \<open>
  The operators the query takes from PostgreSQL and pgvector are parameters: the cosine
  distance \<^verbatim>\<open><=>\<close>, the match
  \<^verbatim>\<open>to_tsvector('english', content) @@ plainto_tsquery('english', query_text)\<close> and
  \<^verbatim>\<open>ts_rank\<close> of the same two arguments. All three are strict: a NULL argument gives
  NULL. So is the way the server plans the statement of the function:
  \<open>custom_plan\<close> says that it is planned with the values of the arguments in place
  (what the plan cache does for the first executions of a statement in a session), so
  that \<^verbatim>\<open>top_k * 2\<close> is computed while planning; otherwise the plan is made for all
  values and \<^verbatim>\<open>top_k * 2\<close> is computed when the \<^verbatim>\<open>LIMIT\<close> is reached.
\<close>

record search_engine =
  cosine_distance :: "vector \<Rightarrow> vector \<Rightarrow> real"
  fts_match :: "string \<Rightarrow> string \<Rightarrow> bool"
  ts_rank :: "string \<Rightarrow> string \<Rightarrow> real"
  custom_plan :: bool

text \<open>A row of the common table expressions \<^verbatim>\<open>dense_results\<close> and \<^verbatim>\<open>fts_results\<close>.\<close>

record candidate =
  c_doc_id :: string
  c_source :: string
  c_content :: string
  c_score :: "real option"

text \<open>A row of \<^verbatim>\<open>combined\<close>, which is a row of the result.\<close>

record result_row =
  r_doc_id :: "string option"
  r_source :: "string option"
  r_content :: "string option"
  dense_score :: real
  fts_score :: real
  final_score :: real

text \<open>\<^verbatim>\<open>ORDER BY key\<close> (ascending, so NULLS LAST) and \<^verbatim>\<open>ORDER BY key DESC\<close>
  (so NULLS FIRST). SQL leaves the order of rows of equal key open; here they keep
  the order they came in.\<close>

definition order_by_asc :: "('a \<Rightarrow> real option) \<Rightarrow> 'a list \<Rightarrow> 'a list" where
  "order_by_asc key xs =
     sort_key (\<lambda>x. the (key x)) (filter (\<lambda>x. key x \<noteq> None) xs) @ filter (\<lambda>x. key x = None) xs"

definition order_by_desc :: "('a \<Rightarrow> real option) \<Rightarrow> 'a list \<Rightarrow> 'a list" where
  "order_by_desc key xs =
     filter (\<lambda>x. key x = None) xs @ sort_key (\<lambda>x. - the (key x)) (filter (\<lambda>x. key x \<noteq> None) xs)"

definition dense_distance :: "search_engine \<Rightarrow> vector \<Rightarrow> legal_document \<Rightarrow> real option" where
  "dense_distance eng query_embedding d =
     map_option (\<lambda>e. cosine_distance eng e query_embedding) (embedding d)"

text \<open>The score of a dense candidate, \<^verbatim>\<open>1 - (d.embedding <=> query_embedding)\<close>.\<close>

definition dense_similarity :: "search_engine \<Rightarrow> vector \<Rightarrow> legal_document \<Rightarrow> real option" where
  "dense_similarity eng query_embedding d =
     map_option (\<lambda>x. 1 - x) (dense_distance eng query_embedding d)"

definition dense_results ::
  "search_engine \<Rightarrow> legal_document list \<Rightarrow> vector \<Rightarrow> int \<Rightarrow> candidate list" where
  "dense_results eng docs query_embedding top_k =
     take (nat (top_k * 2))
       (map (\<lambda>d. \<lparr>c_doc_id = doc_id d, c_source = source d, c_content = content d,
                   c_score = dense_similarity eng query_embedding d\<rparr>)
          (order_by_asc (dense_distance eng query_embedding) docs))"

definition fts_results ::
  "search_engine \<Rightarrow> legal_document list \<Rightarrow> string \<Rightarrow> int \<Rightarrow> candidate list" where
  "fts_results eng docs query_text top_k =
     take (nat (top_k * 2))
       (order_by_desc c_score
          (map (\<lambda>d. \<lparr>c_doc_id = doc_id d, c_source = source d, c_content = content d,
                      c_score = Some (ts_rank eng (content d) query_text)\<rparr>)
             (filter (\<lambda>d. fts_match eng (content d) query_text) docs)))"

text \<open>\<^verbatim>\<open>dense_results d FULL OUTER JOIN fts_results f ON d.doc_id = f.doc_id\<close>: every
  matching pair, every \<open>d\<close> without a match beside NULLs, every \<open>f\<close> without a match
  beside NULLs.\<close>

definition full_outer_join ::
  "candidate list \<Rightarrow> candidate list \<Rightarrow> (candidate option \<times> candidate option) list" where
  "full_outer_join ds fs =
     concat (map (\<lambda>d. let ms = filter (\<lambda>f. c_doc_id d = c_doc_id f) fs
                       in if ms = [] then [(Some d, None)] else map (\<lambda>f. (Some d, Some f)) ms) ds)
     @ map (\<lambda>f. (None, Some f)) (filter (\<lambda>f. \<not> list_ex (\<lambda>d. c_doc_id d = c_doc_id f) ds) fs)"

definition coalesce :: "'a option \<Rightarrow> 'a option \<Rightarrow> 'a option" where
  "coalesce a b = (case a of Some x \<Rightarrow> Some x | None \<Rightarrow> b)"

definition coalesce0 :: "real option \<Rightarrow> real" where
  "coalesce0 a = (case a of Some x \<Rightarrow> x | None \<Rightarrow> 0)"

definition combined_row ::
  "real \<Rightarrow> real \<Rightarrow> candidate option \<times> candidate option \<Rightarrow> result_row" where
  "combined_row dense_weight fts_weight df =
     (case df of (d, f) \<Rightarrow>
       \<lparr>r_doc_id = coalesce (map_option c_doc_id d) (map_option c_doc_id f),
        r_source = coalesce (map_option c_source d) (map_option c_source f),
        r_content = coalesce (map_option c_content d) (map_option c_content f),
        dense_score = coalesce0 (Option.bind d c_score),
        fts_score = coalesce0 (Option.bind f c_score),
        final_score = coalesce0 (Option.bind d c_score) * dense_weight
                    + coalesce0 (Option.bind f c_score) * fts_weight\<rparr>)"

definition combined ::
  "search_engine \<Rightarrow> legal_document list \<Rightarrow> vector \<Rightarrow> string \<Rightarrow> int \<Rightarrow> real \<Rightarrow> real
     \<Rightarrow> result_row list" where
  "combined eng docs query_embedding query_text top_k dense_weight fts_weight =
     map (combined_row dense_weight fts_weight)
       (full_outer_join (dense_results eng docs query_embedding top_k)
                        (fts_results eng docs query_text top_k))"

text \<open>
  The SQL types of the columns, under PostgreSQL's names: \<^verbatim>\<open>INTEGER\<close> is \<open>Int4\<close>,
  \<^verbatim>\<open>real\<close> is \<open>Float4\<close>, \<^verbatim>\<open>FLOAT\<close> and \<^verbatim>\<open>double precision\<close> are \<open>Float8\<close>.
  An arithmetic operator and \<^verbatim>\<open>COALESCE\<close> on two numeric operands give the wider of
  the two types.
\<close>

datatype sql_type = Int4 | Float4 | Float8 | Varchar | Text

definition wider :: "sql_type \<Rightarrow> sql_type \<Rightarrow> sql_type" where
  "wider a b =
     (if a = Float8 \<or> b = Float8 then Float8
      else if a = Float4 \<or> b = Float4 then Float4
      else Int4)"

text \<open>The type of \<^verbatim>\<open>dense_results.score\<close>, \<^verbatim>\<open>1 - (d.embedding <=> query_embedding)\<close>:
  pgvector's \<^verbatim>\<open><=>\<close> is a \<^verbatim>\<open>double precision\<close>. The type of \<^verbatim>\<open>fts_results.score\<close>:
  \<^verbatim>\<open>ts_rank\<close> is a \<^verbatim>\<open>real\<close>.\<close>

definition dense_results_score_type :: sql_type where
  "dense_results_score_type = wider Int4 Float8"

definition fts_results_score_type :: sql_type where
  "fts_results_score_type = Float4"

text \<open>The types of the six columns of \<^verbatim>\<open>combined\<close>, which \<^verbatim>\<open>SELECT * FROM combined\<close>
  hands on: \<^verbatim>\<open>doc_id\<close> and \<^verbatim>\<open>source\<close> are \<^verbatim>\<open>VARCHAR\<close> columns of the table,
  \<^verbatim>\<open>content\<close> is \<^verbatim>\<open>TEXT\<close>, the scores are \<^verbatim>\<open>COALESCE(score, 0)\<close> with the integer
  \<^verbatim>\<open>0\<close>, and the weights are \<^verbatim>\<open>FLOAT\<close> arguments.\<close>

definition query_columns :: "sql_type list" where
  "query_columns =
     [Varchar, Varchar, Text,
      wider dense_results_score_type Int4,
      wider fts_results_score_type Int4,
      wider (wider (wider dense_results_score_type Int4) Float8)
            (wider (wider fts_results_score_type Int4) Float8)]"

text \<open>The declared result, \<^verbatim>\<open>RETURNS TABLE (doc_id VARCHAR, source VARCHAR, content TEXT,
  dense_score FLOAT, fts_score FLOAT, final_score FLOAT)\<close>.\<close>

definition result_columns :: "sql_type list" where
  "result_columns = [Varchar, Varchar, Text, Float8, Float8, Float8]"

text \<open>
  The body of the function, \<^verbatim>\<open>RETURN QUERY ... ORDER BY final_score DESC LIMIT top_k\<close>.
  \<open>top_k\<close> is an \<^verbatim>\<open>INTEGER\<close>; the two weights, \<open>top_k\<close> and the query are not NULL.
  In the order of the server's work:
  \<^item> under a custom plan \<^verbatim>\<open>top_k * 2\<close> is folded to a constant while planning, and
    a product outside the 32-bit integers is the error \<^verbatim>\<open>22003\<close>;
  \<^item> when the query starts, before it makes a row, \<^verbatim>\<open>RETURN QUERY\<close> compares the
    types of the query's columns with the declared result columns, position by
    position; it converts nothing, and a difference is the error \<^verbatim>\<open>42804\<close>
    (\<^verbatim>\<open>structure of query does not match function result type\<close>);
  \<^item> then the query runs: the outer \<^verbatim>\<open>LIMIT top_k\<close> is read first and must not be
    negative, then the two \<^verbatim>\<open>LIMIT top_k * 2\<close>, and the rows are ordered and cut.
\<close>

definition hybrid_search_query ::
  "search_engine \<Rightarrow> legal_document list \<Rightarrow> vector \<Rightarrow> string \<Rightarrow> int \<Rightarrow> real \<Rightarrow> real
     \<Rightarrow> sql_error + result_row list" where
  "hybrid_search_query eng docs query_embedding query_text top_k dense_weight fts_weight =
     (if custom_plan eng \<and> (top_k * 2 < - 2147483648 \<or> 2147483647 < top_k * 2)
      then Inl IntegerOutOfRange
      else if query_columns \<noteq> result_columns then Inl DatatypeMismatch
      else if top_k < 0 then Inl NegativeLimit
      else if 2147483647 < top_k * 2 then Inl IntegerOutOfRange
      else Inr (take (nat top_k)
                  (sort_key (\<lambda>r. - final_score r)
                     (combined eng docs query_embedding query_text top_k dense_weight fts_weight))))"

text \<open>
  The function as it is called: an argument left out (\<open>None\<close>) takes its declared
  default, \<^verbatim>\<open>top_k INTEGER DEFAULT 10\<close>, \<^verbatim>\<open>dense_weight FLOAT DEFAULT 0.6\<close>,
  \<^verbatim>\<open>fts_weight FLOAT DEFAULT 0.4\<close>.
\<close>

definition hybrid_search_2026 ::
  "search_engine \<Rightarrow> legal_document list \<Rightarrow> vector \<Rightarrow> string \<Rightarrow> int option \<Rightarrow> real option
     \<Rightarrow> real option \<Rightarrow> sql_error + result_row list" where
  "hybrid_search_2026 eng docs query_embedding query_text top_k dense_weight fts_weight =
     hybrid_search_query eng docs query_embedding query_text
       (case top_k of None \<Rightarrow> 10 | Some k \<Rightarrow> k)
       (case dense_weight of None \<Rightarrow> 0.6 | Some w \<Rightarrow> w)
       (case fts_weight of None \<Rightarrow> 0.4 | Some w \<Rightarrow> w)"

text \<open>\<^verbatim>\<open>COALESCE(d.doc_id, f.doc_id)\<close> of a joined pair, and the \<open>doc_id\<close>s of the two
  candidate lists.\<close>

definition joined_id :: "candidate option \<times> candidate option \<Rightarrow> string option" where
  "joined_id df = coalesce (map_option c_doc_id (fst df)) (map_option c_doc_id (snd df))"

definition dense_ids :: "search_engine \<Rightarrow> legal_document list \<Rightarrow> vector \<Rightarrow> int \<Rightarrow> string set" where
  "dense_ids eng docs query_embedding top_k = c_doc_id ` set (dense_results eng docs query_embedding top_k)"

definition fts_ids :: "search_engine \<Rightarrow> legal_document list \<Rightarrow> string \<Rightarrow> int \<Rightarrow> string set" where
  "fts_ids eng docs query_text top_k = c_doc_id ` set (fts_results eng docs query_text top_k)"

subsection \<open>A small store\<close>

definition example_document :: "string \<Rightarrow> string \<Rightarrow> vector option \<Rightarrow> legal_document" where
  "example_document i text e =
     \<lparr>doc_id = i, source = ''Constitution of India'', title = None, content = text,
      embedding = e, doc_type = None, jurisdiction = None, year = None, category = None,
      tags = None\<rparr>"

definition example_documents :: "legal_document list" where
  "example_documents =
     [example_document ''a'' ''speech is free'' (Some [1, 0]),
      example_document ''b'' ''speech'' None,
      example_document ''c'' ''assembly'' (Some [0, 1])]"

definition example_chunk :: "string \<Rightarrow> string option \<Rightarrow> document_chunk" where
  "example_chunk i d =
     \<lparr>chunk_id = i, chunk_doc_id = d, chunk_text = ''text'', chunk_size = Some 4,
      chunk_index = Some 0, chunk_embedding = None, prev_chunk_id = None,
      next_chunk_id = None, parent_section = None\<rparr>"

definition example_store :: store where
  "example_store =
     \<lparr>legal_documents_2026 = example_documents,
      document_chunks_2026 =
        [example_chunk ''a-0'' (Some ''a''), example_chunk ''b-0'' (Some ''b''),
         example_chunk ''loose'' None, example_chunk ''a-1'' (Some ''a'')],
      knowledge_graph_2026 = []\<rparr>"

subsection \<open>Properties of the search\<close>

text \<open>First the query as it is written: what the full outer join and \<^verbatim>\<open>combined\<close>
  hold. Then the function around it.\<close>

lemma set_full_outer_join:
  "set (full_outer_join ds fs) =
     {(Some d, Some f) | d f. d \<in> set ds \<and> f \<in> set fs \<and> c_doc_id d = c_doc_id f}
   \<union> {(Some d, None) | d. d \<in> set ds \<and> (\<forall>f \<in> set fs. c_doc_id d \<noteq> c_doc_id f)}
   \<union> {(None, Some f) | f. f \<in> set fs \<and> (\<forall>d \<in> set ds. c_doc_id d \<noteq> c_doc_id f)}"
  (is "?L = ?R")
proof (intro equalityI subsetI)
  fix p assume "p \<in> ?L"
  then show "p \<in> ?R"
    by (auto simp: full_outer_join_def Let_def list_ex_iff filter_empty_conv
             split: if_splits)
next
  fix p assume "p \<in> ?R"
  then consider d f where "p = (Some d, Some f)" "d \<in> set ds" "f \<in> set fs" "c_doc_id d = c_doc_id f"
    | d where "p = (Some d, None)" "d \<in> set ds" "\<forall>f \<in> set fs. c_doc_id d \<noteq> c_doc_id f"
    | f where "p = (None, Some f)" "f \<in> set fs" "\<forall>d \<in> set ds. c_doc_id d \<noteq> c_doc_id f"
    by auto
  then show "p \<in> ?L"
  proof cases
    case 1
    then have "filter (\<lambda>f. c_doc_id d = c_doc_id f) fs \<noteq> []"
      by (auto simp: filter_empty_conv)
    with 1 show ?thesis
      unfolding full_outer_join_def Let_def set_append set_concat set_map
      by (intro UnI1 UN_I [of d]) auto
  next
    case 2
    then have "filter (\<lambda>f. c_doc_id d = c_doc_id f) fs = []"
      by (auto simp: filter_empty_conv)
    with 2 show ?thesis
      unfolding full_outer_join_def Let_def set_append set_concat set_map
      by (intro UnI1 UN_I [of d]) auto
  next
    case 3
    then have "\<not> list_ex (\<lambda>d. c_doc_id d = c_doc_id f) ds"
      by (simp add: list_ex_iff)
    with 3 show ?thesis
      by (simp add: full_outer_join_def)
  qed
qed

lemma in_full_outer_join:
  assumes "(d, f) \<in> set (full_outer_join ds fs)"
  shows "(case d of
            Some dr \<Rightarrow> dr \<in> set ds \<and>
               (case f of Some fr \<Rightarrow> fr \<in> set fs \<and> c_doc_id dr = c_doc_id fr
                        | None \<Rightarrow> c_doc_id dr \<notin> c_doc_id ` set fs)
          | None \<Rightarrow> (case f of Some fr \<Rightarrow> fr \<in> set fs \<and> c_doc_id fr \<notin> c_doc_id ` set ds
                              | None \<Rightarrow> False))"
proof -
  from assms consider dr fr where "d = Some dr" "f = Some fr" "dr \<in> set ds" "fr \<in> set fs"
        "c_doc_id dr = c_doc_id fr"
    | dr where "d = Some dr" "f = None" "dr \<in> set ds" "\<forall>f \<in> set fs. c_doc_id dr \<noteq> c_doc_id f"
    | fr where "d = None" "f = Some fr" "fr \<in> set fs" "\<forall>d \<in> set ds. c_doc_id d \<noteq> c_doc_id fr"
    unfolding set_full_outer_join by auto
  then show ?thesis
  proof cases
    case 1 then show ?thesis by simp
  next
    case 2 then show ?thesis by (simp add: image_iff)
  next
    case 3 then show ?thesis by (simp add: image_iff) metis
  qed
qed

lemma full_outer_join_ids:
  "joined_id ` set (full_outer_join ds fs) = Some ` (c_doc_id ` set ds \<union> c_doc_id ` set fs)"
proof (intro equalityI subsetI)
  fix i assume "i \<in> joined_id ` set (full_outer_join ds fs)"
  then obtain d f where df: "(d, f) \<in> set (full_outer_join ds fs)" "i = joined_id (d, f)"
    by auto
  from in_full_outer_join [OF df(1)] df(2)
  show "i \<in> Some ` (c_doc_id ` set ds \<union> c_doc_id ` set fs)"
    by (auto simp: joined_id_def coalesce_def split: option.splits)
next
  fix i assume "i \<in> Some ` (c_doc_id ` set ds \<union> c_doc_id ` set fs)"
  then consider d where "d \<in> set ds" "i = Some (c_doc_id d)"
    | f where "f \<in> set fs" "i = Some (c_doc_id f)"
    by auto
  then show "i \<in> joined_id ` set (full_outer_join ds fs)"
  proof cases
    case 1
    have "\<exists>f. (Some d, f) \<in> set (full_outer_join ds fs)"
    proof (cases "\<exists>f \<in> set fs. c_doc_id d = c_doc_id f")
      case True
      then obtain f where "f \<in> set fs" "c_doc_id d = c_doc_id f" by blast
      with 1 have "(Some d, Some f) \<in> set (full_outer_join ds fs)"
        unfolding set_full_outer_join by simp
      then show ?thesis ..
    next
      case False
      with 1 have "(Some d, None) \<in> set (full_outer_join ds fs)"
        unfolding set_full_outer_join by simp
      then show ?thesis ..
    qed
    then obtain f where "(Some d, f) \<in> set (full_outer_join ds fs)" by blast
    then have "joined_id (Some d, f) \<in> joined_id ` set (full_outer_join ds fs)"
      by (rule imageI)
    with 1 show ?thesis by (simp add: joined_id_def coalesce_def)
  next
    case 2
    have "\<exists>d. (d, Some f) \<in> set (full_outer_join ds fs)"
    proof (cases "\<exists>d \<in> set ds. c_doc_id d = c_doc_id f")
      case True
      then obtain d where "d \<in> set ds" "c_doc_id d = c_doc_id f" by blast
      with 2 have "(Some d, Some f) \<in> set (full_outer_join ds fs)"
        unfolding set_full_outer_join by simp
      then show ?thesis ..
    next
      case False
      with 2 have "(None, Some f) \<in> set (full_outer_join ds fs)"
        unfolding set_full_outer_join by simp
      then show ?thesis ..
    qed
    then obtain d where d: "(d, Some f) \<in> set (full_outer_join ds fs)" by blast
    then have *: "joined_id (d, Some f) \<in> joined_id ` set (full_outer_join ds fs)"
      by (rule imageI)
    from in_full_outer_join [OF d] have "joined_id (d, Some f) = Some (c_doc_id f)"
      by (auto simp: joined_id_def coalesce_def split: option.splits)
    with * 2 show ?thesis by simp
  qed
qed

lemma r_doc_id_combined_row: "r_doc_id (combined_row dw fw df) = joined_id df"
  by (cases df) (simp add: combined_row_def joined_id_def)


lemma set_order_by_asc: "set (order_by_asc key xs) = set xs"
  by (auto simp: order_by_asc_def)

lemma set_order_by_desc: "set (order_by_desc key xs) = set xs"
  by (auto simp: order_by_desc_def)

lemma in_dense_results:
  assumes "c \<in> set (dense_results eng docs qe k)"
  shows "\<exists>d \<in> set docs. c_doc_id c = doc_id d \<and> c_source c = source d \<and> c_content c = content d
           \<and> c_score c = dense_similarity eng qe d"
proof -
  from assms have "c \<in> set (map (\<lambda>d. \<lparr>c_doc_id = doc_id d, c_source = source d, c_content = content d,
                   c_score = dense_similarity eng qe d\<rparr>)
          (order_by_asc (dense_distance eng qe) docs))"
    unfolding dense_results_def by (rule in_set_takeD)
  then show ?thesis
    by (auto simp: set_order_by_asc)
qed

lemma in_fts_results:
  assumes "c \<in> set (fts_results eng docs qt k)"
  shows "\<exists>d \<in> set docs. c_doc_id c = doc_id d \<and> c_source c = source d \<and> c_content c = content d
           \<and> c_score c = Some (ts_rank eng (content d) qt)"
proof -
  from assms have "c \<in> set (order_by_desc c_score
          (map (\<lambda>d. \<lparr>c_doc_id = doc_id d, c_source = source d, c_content = content d,
                      c_score = Some (ts_rank eng (content d) qt)\<rparr>)
             (filter (\<lambda>d. fts_match eng (content d) qt) docs)))"
    unfolding fts_results_def by (rule in_set_takeD)
  then show ?thesis
    by (auto simp: set_order_by_desc)
qed

lemma same_doc:
  assumes "distinct (map doc_id docs)" "d \<in> set docs" "d' \<in> set docs" "doc_id d = doc_id d'"
  shows "d = d'"
  using assms by (meson distinct_map inj_on_def)

lemma combined_row_scores:
  assumes dist: "distinct (map doc_id docs)"
    and r: "r \<in> set (combined eng docs qe qt k dw fw)"
  shows "\<exists>d \<in> set docs.
           r_doc_id r = Some (doc_id d) \<and> r_source r = Some (source d) \<and> r_content r = Some (content d)
         \<and> dense_score r = (if doc_id d \<in> dense_ids eng docs qe k
                             then (case embedding d of None \<Rightarrow> 0
                                   | Some e \<Rightarrow> 1 - cosine_distance eng e qe)
                             else 0)
         \<and> fts_score r = (if doc_id d \<in> fts_ids eng docs qt k then ts_rank eng (content d) qt else 0)
         \<and> final_score r = dense_score r * dw + fts_score r * fw"
proof -
  let ?D = "dense_results eng docs qe k" and ?F = "fts_results eng docs qt k"
  from r obtain dc fc where df: "(dc, fc) \<in> set (full_outer_join ?D ?F)"
      and r_eq: "r = combined_row dw fw (dc, fc)"
    by (auto simp: combined_def)
  from df consider c f where "dc = Some c" "fc = Some f" "c \<in> set ?D" "f \<in> set ?F"
        "c_doc_id c = c_doc_id f"
    | c where "dc = Some c" "fc = None" "c \<in> set ?D" "\<forall>f \<in> set ?F. c_doc_id c \<noteq> c_doc_id f"
    | f where "dc = None" "fc = Some f" "f \<in> set ?F" "\<forall>c \<in> set ?D. c_doc_id c \<noteq> c_doc_id f"
    unfolding set_full_outer_join by auto
  then show ?thesis
  proof cases
    case 1
    from in_dense_results [OF 1(3)] obtain d where d: "d \<in> set docs" "c_doc_id c = doc_id d"
      "c_source c = source d" "c_content c = content d"
      "c_score c = dense_similarity eng qe d" by blast
    from in_fts_results [OF 1(4)] obtain d' where d': "d' \<in> set docs" "c_doc_id f = doc_id d'"
      "c_score f = Some (ts_rank eng (content d') qt)" by blast
    from same_doc [OF dist d(1) d'(1)] d(2) d'(2) 1(5) have same: "d' = d" by simp
    have "doc_id d \<in> dense_ids eng docs qe k" "doc_id d \<in> fts_ids eng docs qt k"
      using 1 d(2) d'(2) same unfolding dense_ids_def fts_ids_def by (metis imageI)+
    with 1 d d' same r_eq show ?thesis
      by (intro bexI [of _ d])
         (auto simp: combined_row_def coalesce_def coalesce0_def dense_similarity_def dense_distance_def
               split: option.splits)
  next
    case 2
    from in_dense_results [OF 2(3)] obtain d where d: "d \<in> set docs" "c_doc_id c = doc_id d"
      "c_source c = source d" "c_content c = content d"
      "c_score c = dense_similarity eng qe d" by blast
    have "doc_id d \<in> dense_ids eng docs qe k"
      using 2 d(2) unfolding dense_ids_def by (metis imageI)
    moreover have "doc_id d \<notin> fts_ids eng docs qt k"
      using 2(4) d(2) unfolding fts_ids_def by auto
    ultimately show ?thesis using 2 d r_eq
      by (intro bexI [of _ d])
         (auto simp: combined_row_def coalesce_def coalesce0_def dense_similarity_def dense_distance_def
               split: option.splits)
  next
    case 3
    from in_fts_results [OF 3(3)] obtain d where d: "d \<in> set docs" "c_doc_id f = doc_id d"
      "c_source f = source d" "c_content f = content d"
      "c_score f = Some (ts_rank eng (content d) qt)" by blast
    have "doc_id d \<in> fts_ids eng docs qt k"
      using 3 d(2) unfolding fts_ids_def by (metis imageI)
    moreover have "doc_id d \<notin> dense_ids eng docs qe k"
      using 3(4) d(2) unfolding dense_ids_def by auto
    ultimately show ?thesis using 3 d r_eq
      by (intro bexI [of _ d])
         (auto simp: combined_row_def coalesce_def coalesce0_def split: option.splits)
  qed
qed

lemma combined_ids:
  "r_doc_id ` set (combined eng docs qe qt k dw fw) = Some ` (dense_ids eng docs qe k \<union> fts_ids eng docs qt k)"
proof -
  have "r_doc_id ` set (combined eng docs qe qt k dw fw)
      = joined_id ` set (full_outer_join (dense_results eng docs qe k) (fts_results eng docs qt k))"
    by (simp add: combined_def image_image r_doc_id_combined_row)
  then show ?thesis
    by (simp add: full_outer_join_ids dense_ids_def fts_ids_def)
qed

lemma combined_final_score:
  assumes "r \<in> set (combined eng docs qe qt k dw fw)"
  shows "final_score r = dense_score r * dw + fts_score r * fw"
  using assms by (auto simp: combined_def combined_row_def)

text \<open>
  The query's fifth column is a \<^verbatim>\<open>real\<close> (\<^verbatim>\<open>COALESCE(f.score, 0)\<close> over \<^verbatim>\<open>ts_rank\<close>)
  where the result declares \<^verbatim>\<open>fts_score FLOAT\<close>, so \<^verbatim>\<open>RETURN QUERY\<close> raises \<^verbatim>\<open>42804\<close>:
  whatever the arguments and the store, the function returns no rows.
\<close>

lemma query_columns_differ: "query_columns \<noteq> result_columns"
  by (simp add: query_columns_def result_columns_def wider_def dense_results_score_type_def
        fts_results_score_type_def)

lemma query_columns_fifth: "query_columns ! 4 = Float4 \<and> result_columns ! 4 = Float8"
  by (simp add: query_columns_def result_columns_def wider_def dense_results_score_type_def
        fts_results_score_type_def)

lemma hybrid_search_query_raises:
  "hybrid_search_query eng docs qe qt k dw fw =
     Inl (if custom_plan eng \<and> (k * 2 < - 2147483648 \<or> 2147483647 < k * 2)
          then IntegerOutOfRange else DatatypeMismatch)"
  by (simp add: hybrid_search_query_def query_columns_differ)

lemma hybrid_search_query_in_range:
  "- 2147483648 \<le> k * 2 \<Longrightarrow> k * 2 \<le> 2147483647 \<Longrightarrow>
     hybrid_search_query eng docs qe qt k dw fw = Inl DatatypeMismatch"
  by (simp add: hybrid_search_query_raises)

text \<open>
  C3. A call with \<open>top_k = 1\<close> raises \<^verbatim>\<open>42804\<close>, and no call at all returns rows,
  whatever the store, the query, \<open>top_k\<close> and the weights.
\<close>

theorem hybrid_search_returns_no_rows:
  "hybrid_search_2026 eng docs qe qt (Some 1) dw fw = Inl DatatypeMismatch
   \<and> hybrid_search_2026 eng docs qe qt top_k dw fw \<noteq> Inr rows"
  by (simp add: hybrid_search_2026_def hybrid_search_query_raises)

text \<open>
  C7. A call that leaves both weights out is the call with the weights \<open>0.6\<close> and
  \<open>0.4\<close>; with \<open>top_k\<close> left out as well it runs with \<open>top_k = 10\<close>, raises \<^verbatim>\<open>42804\<close>
  and combines no scores.
\<close>

theorem hybrid_search_default_weights_raise:
  "hybrid_search_2026 eng docs qe qt top_k None None =
     hybrid_search_2026 eng docs qe qt top_k (Some 0.6) (Some 0.4)
   \<and> hybrid_search_2026 eng docs qe qt None None None =
       hybrid_search_query eng docs qe qt 10 0.6 0.4
   \<and> hybrid_search_2026 eng docs qe qt None None None = Inl DatatypeMismatch"
  by (simp add: hybrid_search_2026_def hybrid_search_query_in_range)

subsection \<open>Properties of deleting a document\<close>

lemma foldr_ri_cascade_delete:
  "foldr ri_cascade_delete olds cs =
     filter (\<lambda>c. \<forall>old \<in> set olds. chunk_doc_id c \<noteq> Some (doc_id old)) cs"
  by (induction olds) (auto simp: ri_cascade_delete_def intro: filter_cong)

text \<open>
  C5. Deleting an existing document by its \<open>doc_id\<close> removes that document row and
  exactly the chunk rows whose \<open>doc_id\<close> references it; every other document row and
  every chunk row of another document (or of none) stays, unchanged and in place, and
  so does the knowledge graph.
\<close>

theorem delete_document_cascade:
  assumes "d \<in> doc_id ` set (legal_documents_2026 s)"
  shows "legal_documents_2026 (delete_document d s) =
           filter (\<lambda>x. doc_id x \<noteq> d) (legal_documents_2026 s)
       \<and> document_chunks_2026 (delete_document d s) =
           filter (\<lambda>c. chunk_doc_id c \<noteq> Some d) (document_chunks_2026 s)
       \<and> knowledge_graph_2026 (delete_document d s) = knowledge_graph_2026 s"
proof -
  from assms obtain x where x: "x \<in> set (legal_documents_2026 s)" "doc_id x = d"
    by auto
  have "filter (\<lambda>c. \<forall>old \<in> set (filter (\<lambda>x. doc_id x = d) (legal_documents_2026 s)).
            chunk_doc_id c \<noteq> Some (doc_id old)) (document_chunks_2026 s) =
        filter (\<lambda>c. chunk_doc_id c \<noteq> Some d) (document_chunks_2026 s)"
    using x by (intro filter_cong) auto
  then show ?thesis
    by (simp add: delete_document_def Let_def foldr_ri_cascade_delete)
qed

theorem delete_document_cascade_witness:
  "''a'' \<in> doc_id ` set (legal_documents_2026 example_store)
   \<and> legal_documents_2026 (delete_document ''a'' example_store) =
       [example_document ''b'' ''speech'' None, example_document ''c'' ''assembly'' (Some [0, 1])]
   \<and> document_chunks_2026 (delete_document ''a'' example_store) =
       [example_chunk ''b-0'' (Some ''b''), example_chunk ''loose'' None]
   \<and> knowledge_graph_2026 (delete_document ''a'' example_store) = []"
proof -
  have h: "''a'' \<in> doc_id ` set (legal_documents_2026 example_store)"
    by (simp add: example_store_def example_documents_def example_document_def)
  from delete_document_cascade [OF h] h show ?thesis
    by (simp add: example_store_def example_documents_def example_document_def example_chunk_def)
qed


section \<open>The sample data: \<^verbatim>\<open>insert_sample_data_2026\<close>\<close>

text \<open>
  \<^verbatim>\<open>INSERT\<close> appends the rows; a row whose key (\<^verbatim>\<open>doc_id\<close>, \<^verbatim>\<open>entity_id\<close>:
  \<^verbatim>\<open>UNIQUE NOT NULL\<close>) is already taken aborts the statement, and with it the
  function, which then leaves the store as it was. Columns the statement does not
  name are NULL.
\<close>

definition insert_documents :: "legal_document list \<Rightarrow> store \<Rightarrow> sql_error + store" where
  "insert_documents rows s =
     (if distinct (map doc_id (legal_documents_2026 s @ rows))
      then Inr (s\<lparr>legal_documents_2026 := legal_documents_2026 s @ rows\<rparr>)
      else Inl UniqueViolation)"

definition insert_entities :: "kg_entity list \<Rightarrow> store \<Rightarrow> sql_error + store" where
  "insert_entities rows s =
     (if distinct (map entity_id (knowledge_graph_2026 s @ rows))
      then Inr (s\<lparr>knowledge_graph_2026 := knowledge_graph_2026 s @ rows\<rparr>)
      else Inl UniqueViolation)"

text \<open>The texts are UTF-8: a line break is one character, the dash after
  \<open>right\<close> and \<open>device,\<close> is three.\<close>

definition newline :: string where
  "newline = [CHR 0x0A]"

definition em_dash :: string where
  "em_dash = [CHR 0xE2, CHR 0x80, CHR 0x94]"

definition article_19_content :: string where
  "article_19_content = concat
    [''Article 19. Protection of certain rights regarding freedom of speech etc.'',
     newline,
     ''        '',
     newline,
     ''        (1) All citizens shall have the right'',
     em_dash,
     newline,
     ''        (a) to freedom of speech and expression;'',
     newline,
     ''        (b) to assemble peaceably and without arms;'',
     newline,
     ''        (c) to form associations or unions;'',
     newline,
     ''        (d) to move freely throughout the territory of India;'',
     newline,
     ''        (e) to reside and settle in any part of the territory of India;'',
     newline,
     ''        (f) [Omitted]'',
     newline,
     ''        (g) to practise any profession, or to carry on any occupation, trade or business.'',
     newline,
     ''        '',
     newline,
     ''        (2) Nothing in sub-clause (a) of clause (1) shall affect the operation of any existing law, or prevent the State from making any law, in so far as such law imposes reasonable restrictions on the exercise of the right conferred by the said sub-clause in the interests of the sovereignty and integrity of India, the security of the State, friendly relations with foreign States, public order, decency or morality or in relation to contempt of court, defamation or incitement to an offence.'']"

definition section_66a_content :: string where
  "section_66a_content = concat
    [''Section 66A. Punishment for sending offensive messages through communication service, etc.'',
     newline,
     ''        '',
     newline,
     ''        Any person who sends, by means of a computer resource or a communication device,'',
     em_dash,
     newline,
     ''        (a) any information that is grossly offensive or has menacing character; or'',
     newline,
     ''        (b) any information which he knows to be false, but for the purpose of causing annoyance, inconvenience, danger, obstruction, insult, injury, criminal intimidation, enmity, hatred or ill will, persistently by making use of such computer resource or a communication device; or'',
     newline,
     ''        (c) any electronic mail or electronic mail message for the purpose of causing annoyance or inconvenience or to deceive or to mislead the addressee or recipient about the origin of such messages,'',
     newline,
     ''        '',
     newline,
     ''        shall be punishable with imprisonment for a term which may extend to three years and with fine.'',
     newline,
     ''        '',
     newline,
     ''        [NOTE: This section was struck down by the Supreme Court in Shreya Singhal v. Union of India (2015) as unconstitutional]'']"

definition constitution_article_19 :: legal_document where
  "constitution_article_19 =
     \<lparr>doc_id = ''constitution_article_19'',
      source = ''Constitution of India'',
      title = Some ''Article 19 - Protection of certain rights regarding freedom of speech etc.'',
      content = article_19_content,
      embedding = None,
      doc_type = Some ''constitution'',
      jurisdiction = Some ''India'',
      year = Some 1950,
      category = Some ''fundamental_rights'',
      tags = None\<rparr>"

definition it_act_section_66a :: legal_document where
  "it_act_section_66a =
     \<lparr>doc_id = ''it_act_section_66a'',
      source = ''Information Technology Act, 2000 (Amended 2008)'',
      title = Some ''Section 66A - Punishment for sending offensive messages'',
      content = section_66a_content,
      embedding = None,
      doc_type = Some ''act'',
      jurisdiction = Some ''India'',
      year = Some 2008,
      category = Some ''cyber_law'',
      tags = None\<rparr>"

definition article_19 :: kg_entity where
  "article_19 =
     \<lparr>entity_id = ''article_19'',
      entity_type = ''article'',
      entity_name = ''Article 19 - Freedom of Speech'',
      entity_embedding = None,
      relationships = Some
        [\<lparr>rel_type = ''PROTECTS'', rel_target = ''freedom_of_speech'', rel_weight = 1.0\<rparr>,
         \<lparr>rel_type = ''ALLOWS_RESTRICTIONS'', rel_target = ''reasonable_restrictions'', rel_weight = 0.8\<rparr>,
         \<lparr>rel_type = ''RELATED_TO'', rel_target = ''article_21'', rel_weight = 0.6\<rparr>],
      source_doc_id = Some ''constitution_article_19''\<rparr>"

definition freedom_of_speech :: kg_entity where
  "freedom_of_speech =
     \<lparr>entity_id = ''freedom_of_speech'',
      entity_type = ''right'',
      entity_name = ''Freedom of Speech and Expression'',
      entity_embedding = None,
      relationships = Some
        [\<lparr>rel_type = ''GUARANTEED_BY'', rel_target = ''article_19'', rel_weight = 1.0\<rparr>,
         \<lparr>rel_type = ''RESTRICTED_BY'', rel_target = ''section_66a'', rel_weight = 0.7\<rparr>,
         \<lparr>rel_type = ''INCLUDES'', rel_target = ''internet_speech'', rel_weight = 0.9\<rparr>],
      source_doc_id = Some ''constitution_article_19''\<rparr>"

definition section_66a :: kg_entity where
  "section_66a =
     \<lparr>entity_id = ''section_66a'',
      entity_type = ''restriction'',
      entity_name = ''Section 66A IT Act'',
      entity_embedding = None,
      relationships = Some
        [\<lparr>rel_type = ''RESTRICTS'', rel_target = ''freedom_of_speech'', rel_weight = 0.9\<rparr>,
         \<lparr>rel_type = ''STRUCK_DOWN_BY'', rel_target = ''shreya_singhal_case'', rel_weight = 1.0\<rparr>],
      source_doc_id = Some ''it_act_section_66a''\<rparr>"

definition insert_sample_data_2026 :: "store \<Rightarrow> sql_error + store" where
  "insert_sample_data_2026 s =
     (case insert_documents [constitution_article_19, it_act_section_66a] s of
        Inl e \<Rightarrow> Inl e
      | Inr s1 \<Rightarrow> insert_entities [article_19, freedom_of_speech, section_66a] s1)"

text \<open>The store \<^verbatim>\<open>setup.sql\<close> calls the function on: the tables just created.\<close>

definition empty_store :: store where
  "empty_store = \<lparr>legal_documents_2026 = [], document_chunks_2026 = [], knowledge_graph_2026 = []\<rparr>"

text \<open>The text columns of a document row.\<close>

definition document_fields :: "legal_document \<Rightarrow> string list" where
  "document_fields d = [doc_id d, source d, (case title d of None \<Rightarrow> [] | Some t \<Rightarrow> t), content d]"

subsection \<open>Properties of the sample data\<close>

lemma sample_documents_no_302:
  "list_all (\<lambda>t. \<not> sublist ''302'' t) (document_fields constitution_article_19)"
  "list_all (\<lambda>t. \<not> sublist ''302'' t) (document_fields it_act_section_66a)"
  by (simp_all add: document_fields_def constitution_article_19_def it_act_section_66a_def
        article_19_content_def section_66a_content_def newline_def em_dash_def sublist_code)

lemma insert_sample_data_2026_result:
  assumes "distinct (map doc_id (legal_documents_2026 s))"
    and "''constitution_article_19'' \<notin> doc_id ` set (legal_documents_2026 s)"
    and "''it_act_section_66a'' \<notin> doc_id ` set (legal_documents_2026 s)"
    and "distinct (map entity_id (knowledge_graph_2026 s))"
    and "set [''article_19'', ''freedom_of_speech'', ''section_66a'']
           \<inter> entity_id ` set (knowledge_graph_2026 s) = {}"
  shows "insert_sample_data_2026 s =
     Inr (s\<lparr>legal_documents_2026 := legal_documents_2026 s @ [constitution_article_19, it_act_section_66a],
            knowledge_graph_2026 := knowledge_graph_2026 s @ [article_19, freedom_of_speech, section_66a]\<rparr>)"
proof -
  have "distinct (map doc_id (legal_documents_2026 s @ [constitution_article_19, it_act_section_66a]))"
    using assms(1-3) by (auto simp: constitution_article_19_def it_act_section_66a_def)
  moreover have "distinct (map entity_id (knowledge_graph_2026 s @ [article_19, freedom_of_speech, section_66a]))"
    using assms(4,5) by (auto simp: article_19_def freedom_of_speech_def section_66a_def)
  ultimately show ?thesis
    by (simp add: insert_sample_data_2026_def insert_documents_def insert_entities_def)
qed

text \<open>
  C6. On a store that holds none of the five keys, \<open>insert_sample_data_2026\<close>
  succeeds and adds exactly two documents, \<open>constitution_article_19\<close> and
  \<open>it_act_section_66a\<close> (neither names a Section 302), and exactly three
  knowledge-graph entities, the third of them \<open>section_66a\<close>, which carries the
  relationship \<open>STRUCK_DOWN_BY\<close> to \<open>shreya_singhal_case\<close> with weight \<open>1.0\<close>;
  chunks are not touched.
\<close>

theorem insert_sample_data_2026_rows:
  assumes "distinct (map doc_id (legal_documents_2026 s))"
    and "''constitution_article_19'' \<notin> doc_id ` set (legal_documents_2026 s)"
    and "''it_act_section_66a'' \<notin> doc_id ` set (legal_documents_2026 s)"
    and "distinct (map entity_id (knowledge_graph_2026 s))"
    and "set [''article_19'', ''freedom_of_speech'', ''section_66a'']
           \<inter> entity_id ` set (knowledge_graph_2026 s) = {}"
  shows "\<exists>s' d1 d2 e1 e2 e3 rels.
           insert_sample_data_2026 s = Inr s'
         \<and> legal_documents_2026 s' = legal_documents_2026 s @ [d1, d2]
         \<and> doc_id d1 = ''constitution_article_19'' \<and> doc_id d2 = ''it_act_section_66a''
         \<and> list_all (\<lambda>t. \<not> sublist ''302'' t) (document_fields d1)
         \<and> list_all (\<lambda>t. \<not> sublist ''302'' t) (document_fields d2)
         \<and> knowledge_graph_2026 s' = knowledge_graph_2026 s @ [e1, e2, e3]
         \<and> entity_id e3 = ''section_66a''
         \<and> relationships e3 = Some rels
         \<and> \<lparr>rel_type = ''STRUCK_DOWN_BY'', rel_target = ''shreya_singhal_case'', rel_weight = 1.0\<rparr>
             \<in> set rels
         \<and> document_chunks_2026 s' = document_chunks_2026 s"
proof -
  note no302 = sample_documents_no_302
  show ?thesis
    unfolding insert_sample_data_2026_result [OF assms]
    apply (intro exI conjI)
              apply (rule refl)
             apply simp
            apply (simp add: constitution_article_19_def)
           apply (simp add: it_act_section_66a_def)
          apply (rule no302(1))
         apply (rule no302(2))
        apply simp
       apply (simp add: section_66a_def)
      apply (simp add: section_66a_def)
     apply simp
    apply simp
    done
qed

theorem insert_sample_data_2026_rows_witness:
  "distinct (map doc_id (legal_documents_2026 empty_store))
   \<and> ''constitution_article_19'' \<notin> doc_id ` set (legal_documents_2026 empty_store)
   \<and> ''it_act_section_66a'' \<notin> doc_id ` set (legal_documents_2026 empty_store)
   \<and> distinct (map entity_id (knowledge_graph_2026 empty_store))
   \<and> set [''article_19'', ''freedom_of_speech'', ''section_66a'']
           \<inter> entity_id ` set (knowledge_graph_2026 empty_store) = {}
   \<and> (\<exists>s' d1 d2 e1 e2 e3 rels.
           insert_sample_data_2026 empty_store = Inr s'
         \<and> legal_documents_2026 s' = legal_documents_2026 empty_store @ [d1, d2]
         \<and> doc_id d1 = ''constitution_article_19'' \<and> doc_id d2 = ''it_act_section_66a''
         \<and> list_all (\<lambda>t. \<not> sublist ''302'' t) (document_fields d1)
         \<and> list_all (\<lambda>t. \<not> sublist ''302'' t) (document_fields d2)
         \<and> knowledge_graph_2026 s' = knowledge_graph_2026 empty_store @ [e1, e2, e3]
         \<and> entity_id e3 = ''section_66a''
         \<and> relationships e3 = Some rels
         \<and> \<lparr>rel_type = ''STRUCK_DOWN_BY'', rel_target = ''shreya_singhal_case'', rel_weight = 1.0\<rparr>
             \<in> set rels
         \<and> document_chunks_2026 s' = document_chunks_2026 empty_store)"
proof -
  have h1: "distinct (map doc_id (legal_documents_2026 empty_store))"
    and h2: "''constitution_article_19'' \<notin> doc_id ` set (legal_documents_2026 empty_store)"
    and h3: "''it_act_section_66a'' \<notin> doc_id ` set (legal_documents_2026 empty_store)"
    and h4: "distinct (map entity_id (knowledge_graph_2026 empty_store))"
    and h5: "set [''article_19'', ''freedom_of_speech'', ''section_66a'']
           \<inter> entity_id ` set (knowledge_graph_2026 empty_store) = {}"
    by (simp_all add: empty_store_def)
  from insert_sample_data_2026_rows [OF h1 h2 h3 h4 h5] h1 h2 h3 h4 h5 show ?thesis
    by (intro conjI)
qed

subsection \<open>The search on the sample data\<close>

text \<open>The store \<^verbatim>\<open>setup.sql\<close> leaves behind: the two sample documents, neither with an
  embedding, and the three entities.\<close>

lemma insert_sample_data_2026_empty_store:
  "insert_sample_data_2026 empty_store =
     Inr \<lparr>legal_documents_2026 = [constitution_article_19, it_act_section_66a],
          document_chunks_2026 = [],
          knowledge_graph_2026 = [article_19, freedom_of_speech, section_66a]\<rparr>"
proof -
  have "insert_sample_data_2026 empty_store =
     Inr (empty_store\<lparr>legal_documents_2026 := legal_documents_2026 empty_store @ [constitution_article_19, it_act_section_66a],
            knowledge_graph_2026 := knowledge_graph_2026 empty_store @ [article_19, freedom_of_speech, section_66a]\<rparr>)"
    by (rule insert_sample_data_2026_result) (simp_all add: empty_store_def)
  then show ?thesis
    by (simp add: empty_store_def)
qed

lemma sample_dense_ids:
  "dense_ids eng [constitution_article_19, it_act_section_66a] qe 3 =
     {''constitution_article_19'', ''it_act_section_66a''}"
  by (auto simp: dense_ids_def dense_results_def order_by_asc_def dense_distance_def
        constitution_article_19_def it_act_section_66a_def)

lemma sample_fts_ids:
  "fts_ids eng [constitution_article_19, it_act_section_66a] qt k
     \<subseteq> {''constitution_article_19'', ''it_act_section_66a''}"
proof
  fix i assume "i \<in> fts_ids eng [constitution_article_19, it_act_section_66a] qt k"
  then obtain c where c: "c \<in> set (fts_results eng [constitution_article_19, it_act_section_66a] qt k)"
      "i = c_doc_id c"
    by (auto simp: fts_ids_def)
  from in_fts_results [OF c(1)] c(2)
  show "i \<in> {''constitution_article_19'', ''it_act_section_66a''}"
    by (auto simp: constitution_article_19_def it_act_section_66a_def)
qed

text \<open>
  C1. The function puts out no document, whatever the candidate lists hold. On the
  two sample documents, for any query with \<open>top_k = 3\<close> and the weights \<open>0.6\<close> and
  \<open>0.4\<close>, both documents are in the dense candidate list, the query's
  \<^verbatim>\<open>combined\<close> has a row for each of them, and the call raises \<^verbatim>\<open>42804\<close>: no row
  and no score is returned.
\<close>

theorem hybrid_search_scores_not_returned:
  "dense_ids eng [constitution_article_19, it_act_section_66a] qe 3 =
     {''constitution_article_19'', ''it_act_section_66a''}
   \<and> r_doc_id ` set (combined eng [constitution_article_19, it_act_section_66a] qe qt 3 0.6 0.4) =
       {Some ''constitution_article_19'', Some ''it_act_section_66a''}
   \<and> hybrid_search_2026 eng [constitution_article_19, it_act_section_66a] qe qt
        (Some 3) (Some 0.6) (Some 0.4) = Inl DatatypeMismatch"
proof -
  have "r_doc_id ` set (combined eng [constitution_article_19, it_act_section_66a] qe qt 3 0.6 0.4) =
       {Some ''constitution_article_19'', Some ''it_act_section_66a''}"
    unfolding combined_ids sample_dense_ids using sample_fts_ids [of eng qt 3] by auto
  moreover have "hybrid_search_2026 eng [constitution_article_19, it_act_section_66a] qe qt
        (Some 3) (Some 0.6) (Some 0.4) = Inl DatatypeMismatch"
    by (simp add: hybrid_search_2026_def hybrid_search_query_in_range)
  ultimately show ?thesis
    by (simp add: sample_dense_ids)
qed


section \<open>Rank fusion (spec, section 4.3)\<close>

text \<open>
  Modelled from the spec: the Reciprocal Rank Fusion of the retrieval pipeline is not
  among the sources. Section 4.3: for each distinct item,
  \<open>fused_score = \<Sum>\<close> over the lists containing it of \<open>1 / (rank_in_list + c)\<close>,
  where \<open>c\<close> is a small constant (e.g. 60); an item absent from a list contributes
  \<open>0\<close> for that list. The rank is the position in the list, counted from 1, and \<open>c\<close>
  is a natural number.
\<close>

definition rank_in_list :: "'a \<Rightarrow> 'a list \<Rightarrow> nat" where
  "rank_in_list x xs = Suc (length (takeWhile (\<lambda>y. y \<noteq> x) xs))"

definition rrf_term :: "nat \<Rightarrow> 'a \<Rightarrow> 'a list \<Rightarrow> real" where
  "rrf_term c x l = (if x \<in> set l then 1 / real (rank_in_list x l + c) else 0)"

definition fused_score :: "nat \<Rightarrow> 'a list list \<Rightarrow> 'a \<Rightarrow> real" where
  "fused_score c ranked x = sum_list (map (rrf_term c x) ranked)"

lemma fused_score_sum: "fused_score c ranked x = (\<Sum>i<length ranked. rrf_term c x (ranked ! i))"
  by (simp add: fused_score_def sum_list_sum_nth atLeast0LessThan)

lemma rrf_term_pos: "x \<in> set l \<Longrightarrow> 0 < rrf_term c x l"
  by (simp add: rrf_term_def rank_in_list_def)

lemma rrf_term_nonneg: "0 \<le> rrf_term c x l"
  by (simp add: rrf_term_def)

lemma fused_score_single:
  assumes "j < length ranked" and "\<forall>i<length ranked. i \<noteq> j \<longrightarrow> y \<notin> set (ranked ! i)"
  shows "fused_score c ranked y = rrf_term c y (ranked ! j)"
proof -
  have "fused_score c ranked y = rrf_term c y (ranked ! j) + (\<Sum>i\<in>{..<length ranked} - {j}. rrf_term c y (ranked ! i))"
    unfolding fused_score_sum using assms(1) by (simp add: sum.remove)
  also have "(\<Sum>i\<in>{..<length ranked} - {j}. rrf_term c y (ranked ! i)) = 0"
    using assms(2) by (intro sum.neutral) (auto simp: rrf_term_def)
  finally show ?thesis by simp
qed

lemma fused_score_everywhere:
  assumes "j < length ranked" and "2 \<le> length ranked" and "\<forall>l\<in>set ranked. x \<in> set l"
  shows "rrf_term c x (ranked ! j) < fused_score c ranked x"
proof -
  have split: "fused_score c ranked x = rrf_term c x (ranked ! j) + (\<Sum>i\<in>{..<length ranked} - {j}. rrf_term c x (ranked ! i))"
    unfolding fused_score_sum using assms(1) by (simp add: sum.remove)
  have ne: "{..<length ranked} - {j} \<noteq> {}"
  proof -
    from assms(2) have "(if j = 0 then 1 else 0) \<in> {..<length ranked} - {j}"
      by auto
    then show ?thesis by blast
  qed
  have "0 < (\<Sum>i\<in>{..<length ranked} - {j}. rrf_term c x (ranked ! i))"
    using ne assms(3) by (intro sum_pos) (auto intro!: rrf_term_pos)
  with split show ?thesis by simp
qed

text \<open>
  C2. Take any constant \<open>c\<close>, a collection of several ranked lists in which \<open>x\<close> is
  present in every list, and a collection of as many lists in which \<open>y\<close> is present
  in list \<open>j\<close> only, at the rank \<open>x\<close> has in its list \<open>j\<close>. Then the fused score of
  \<open>x\<close> is strictly greater than that of \<open>y\<close>. (With a single list the two items
  have the same coverage and the same score.)
\<close>

theorem rrf_coverage_monotone:
  assumes every: "\<forall>l\<in>set ranked. x \<in> set l"
    and several: "2 \<le> length ranked" "length ranked' = length ranked"
    and only_j: "j < length ranked" "y \<in> set (ranked' ! j)"
       "\<forall>i<length ranked'. i \<noteq> j \<longrightarrow> y \<notin> set (ranked' ! i)"
    and same_rank: "rank_in_list y (ranked' ! j) = rank_in_list x (ranked ! j)"
  shows "fused_score c ranked' y < fused_score c ranked x"
proof -
  have "x \<in> set (ranked ! j)"
    using every only_j(1) by simp
  have "fused_score c ranked' y = rrf_term c y (ranked' ! j)"
    using only_j several by (intro fused_score_single) auto
  also have "\<dots> = rrf_term c x (ranked ! j)"
    using same_rank only_j(2) \<open>x \<in> set (ranked ! j)\<close> by (simp add: rrf_term_def)
  also have "\<dots> < fused_score c ranked x"
    using only_j(1) several(1) every by (rule fused_score_everywhere)
  finally show ?thesis .
qed

theorem rrf_coverage_monotone_witness:
  "fused_score 60 [[''y'', ''b''], [''b''], [''c'']] ''y''
     < fused_score 60 [[''a'', ''b''], [''b'', ''a''], [''a'']] ''a''"
proof -
  let ?ranked = "[[''a'', ''b''], [''b'', ''a''], [''a'']]"
  let ?ranked' = "[[''y'', ''b''], [''b''], [''c'']]"
  have h1: "\<forall>l\<in>set ?ranked. ''a'' \<in> set l"
    by simp
  have h2: "2 \<le> length ?ranked" "length ?ranked' = length ?ranked"
    by simp_all
  have h3: "0 < length ?ranked" "''y'' \<in> set (?ranked' ! 0)"
    by simp_all
  have h4: "\<forall>i<length ?ranked'. i \<noteq> 0 \<longrightarrow> ''y'' \<notin> set (?ranked' ! i)"
    by (simp add: nth_Cons' less_Suc_eq)
  have h5: "rank_in_list ''y'' (?ranked' ! 0) = rank_in_list ''a'' (?ranked ! 0)"
    by (simp add: rank_in_list_def)
  show ?thesis
    by (rule rrf_coverage_monotone [OF h1 h2 h3 h4 h5])
qed

section \<open>The web client (frontend/src/pages)\<close>

text \<open>
  A JavaScript string is a \<open>string\<close>: each character one code unit, here of the
  range \<open>0..255\<close>. \<open>js_whitespace\<close> is what \<^verbatim>\<open>\s\<close> and \<^verbatim>\<open>trim\<close> take for white
  space in that range.
\<close>

definition js_whitespace :: "char \<Rightarrow> bool" where
  "js_whitespace c =
     (c \<in> set [CHR 0x09, CHR 0x0A, CHR 0x0B, CHR 0x0C, CHR 0x0D, CHR 0x20, CHR 0xA0])"

definition trim :: "string \<Rightarrow> string" where
  "trim s = rev (dropWhile js_whitespace (rev (dropWhile js_whitespace s)))"

subsection \<open>Regular expressions\<close>

text \<open>The fragment of regular expressions the client uses: character classes,
  sequence, \<^verbatim>\<open>+\<close>; \<open>RZero\<close>, \<open>ROne\<close>, \<open>RAlt\<close> and \<open>RStar\<close> arise as derivatives.
  \<open>regex_test\<close> is \<^verbatim>\<open>/^r$/.test(s)\<close>: without flags the two anchors make the whole
  string match.\<close>

datatype regex =
    RZero
  | ROne
  | RClass "char \<Rightarrow> bool"
  | RSeq regex regex
  | RAlt regex regex
  | RStar regex
  | RPlus regex

fun nullable :: "regex \<Rightarrow> bool" where
  "nullable RZero = False"
| "nullable ROne = True"
| "nullable (RClass p) = False"
| "nullable (RSeq r s) = (nullable r \<and> nullable s)"
| "nullable (RAlt r s) = (nullable r \<or> nullable s)"
| "nullable (RStar r) = True"
| "nullable (RPlus r) = nullable r"

fun rx_deriv :: "char \<Rightarrow> regex \<Rightarrow> regex" where
  "rx_deriv c RZero = RZero"
| "rx_deriv c ROne = RZero"
| "rx_deriv c (RClass p) = (if p c then ROne else RZero)"
| "rx_deriv c (RSeq r s) =
     (if nullable r then RAlt (RSeq (rx_deriv c r) s) (rx_deriv c s) else RSeq (rx_deriv c r) s)"
| "rx_deriv c (RAlt r s) = RAlt (rx_deriv c r) (rx_deriv c s)"
| "rx_deriv c (RStar r) = RSeq (rx_deriv c r) (RStar r)"
| "rx_deriv c (RPlus r) = RSeq (rx_deriv c r) (RStar r)"

definition regex_test :: "regex \<Rightarrow> string \<Rightarrow> bool" where
  "regex_test r s = nullable (foldl (\<lambda>r c. rx_deriv c r) r s)"

text \<open>The strings a regular expression stands for.\<close>

definition conc :: "string set \<Rightarrow> string set \<Rightarrow> string set" where
  "conc A B = {u @ v | u v. u \<in> A \<and> v \<in> B}"

inductive_set repeated :: "string set \<Rightarrow> string set" for A :: "string set" where
  none: "[] \<in> repeated A"
| more: "u \<in> A \<Longrightarrow> v \<in> repeated A \<Longrightarrow> u @ v \<in> repeated A"

fun language :: "regex \<Rightarrow> string set" where
  "language RZero = {}"
| "language ROne = {[]}"
| "language (RClass p) = {[c] | c. p c}"
| "language (RSeq r s) = conc (language r) (language s)"
| "language (RAlt r s) = language r \<union> language s"
| "language (RStar r) = repeated (language r)"
| "language (RPlus r) = conc (language r) (repeated (language r))"

subsection \<open>Login.jsx\<close>

text \<open>\<^verbatim>\<open>/^[^\s@]+@[^\s@]+\.[^\s@]+$/\<close>\<close>

definition not_space_or_at :: "char \<Rightarrow> bool" where
  "not_space_or_at c = (\<not> js_whitespace c \<and> c \<noteq> CHR ''@'')"

definition emailRegex :: regex where
  "emailRegex =
     RSeq (RPlus (RClass not_space_or_at))
       (RSeq (RClass (\<lambda>c. c = CHR ''@''))
          (RSeq (RPlus (RClass not_space_or_at))
             (RSeq (RClass (\<lambda>c. c = CHR ''.''))
                (RPlus (RClass not_space_or_at)))))"

definition validateEmail :: "string \<Rightarrow> string" where
  "validateEmail email =
     (if email = [] then ''Email is required''
      else if \<not> regex_test emailRegex email then ''Please enter a valid email''
      else [])"

definition validatePassword :: "string \<Rightarrow> string" where
  "validatePassword password =
     (if password = [] then ''Password is required''
      else if length password < 6 then ''Password must be at least 6 characters''
      else [])"


text \<open>
  What a page of the client acts on beside its own state: the browser's
  \<^verbatim>\<open>localStorage\<close>, the toasts shown, the routes navigated to and the requests
  handed to \<^verbatim>\<open>fetch\<close>, each in the order of the calls. A browser can refuse a
  write to \<^verbatim>\<open>localStorage\<close> (the quota is exceeded, or storage is disabled), and
  \<^verbatim>\<open>setItem\<close> then throws: \<open>storage_accepts\<close> says whether the storage, with what it
  holds, takes a value under a key.
\<close>

datatype toast_kind = Success | Error | Warning | Info

datatype json =
    JNull
  | JBool bool
  | JNumber real
  | JString string
  | JArray "json list"
  | JObject "(string \<times> json) list"

record http_request =
  http_method :: string
  url :: string
  headers :: "(string \<times> string) list"
  body :: "json option"

record browser =
  localStorage :: "string \<rightharpoonup> string"
  storage_accepts :: "(string \<rightharpoonup> string) \<Rightarrow> string \<Rightarrow> string \<Rightarrow> bool"
  toasts :: "(toast_kind \<times> string) list"
  navigated :: "string list"
  requests :: "http_request list"

text \<open>\<^verbatim>\<open>localStorage.setItem(key, value)\<close>; \<open>Inl\<close> is a thrown exception, and then
  nothing is stored.\<close>

definition setItem :: "string \<Rightarrow> string \<Rightarrow> browser \<Rightarrow> unit + browser" where
  "setItem key v b =
     (if storage_accepts b (localStorage b) key v
      then Inr (b\<lparr>localStorage := (localStorage b)(key \<mapsto> v)\<rparr>)
      else Inl ())"

text \<open>The state of the \<^verbatim>\<open>Login\<close> component, and the form's two error slots.\<close>

record field_errors =
  email_error :: string
  password_error :: string

record field_touched =
  email_touched :: bool
  password_touched :: bool

record login =
  email :: string
  password :: string
  errors :: field_errors
  touched :: field_touched
  loading :: bool
  env :: browser

text \<open>
  The \<^verbatim>\<open>try\<close> block of \<^verbatim>\<open>handleSubmit\<close>: after the one-second timer, which always
  resolves, two writes to \<^verbatim>\<open>localStorage\<close>, a toast and the navigation. \<open>Inl\<close> is
  a thrown exception, with the state the block has reached by then: a write that
  throws ends the block, and what was written before it stays written. The toast
  and the navigation are recorded and do not throw.
\<close>

definition login_attempt :: "login \<Rightarrow> login + login" where
  "login_attempt s =
     (case setItem ''isAuthenticated'' ''true'' (env s) of
        Inl _ \<Rightarrow> Inl s
      | Inr b1 \<Rightarrow>
          (case setItem ''userEmail'' (email s) b1 of
             Inl _ \<Rightarrow> Inl (s\<lparr>env := b1\<rparr>)
           | Inr b2 \<Rightarrow>
               Inr (s\<lparr>env := b2
                      \<lparr>toasts := toasts b2 @ [(Success, ''Login successful!'')],
                       navigated := navigated b2 @ [''/chat'']\<rparr>\<rparr>)))"

text \<open>\<^verbatim>\<open>handleSubmit\<close>: the two validations, the early return on a field error, and
  the \<^verbatim>\<open>try\<close> block with its \<^verbatim>\<open>catch\<close>.\<close>

definition login_handleSubmit :: "login \<Rightarrow> login" where
  "login_handleSubmit s =
     (let emailError = validateEmail (email s);
          passwordError = validatePassword (password s);
          s1 = s\<lparr>errors := \<lparr>email_error = emailError, password_error = passwordError\<rparr>,
                 touched := \<lparr>email_touched = True, password_touched = True\<rparr>\<rparr>
      in if emailError \<noteq> [] \<or> passwordError \<noteq> []
         then s1\<lparr>env := (env s1)\<lparr>toasts := toasts (env s1) @ [(Error, ''Please fix the errors below'')]\<rparr>\<rparr>
         else (case login_attempt (s1\<lparr>loading := True\<rparr>) of
                 Inr s2 \<Rightarrow> s2
               | Inl s2 \<Rightarrow>
                   s2\<lparr>loading := False,
                      env := (env s2)\<lparr>toasts := toasts (env s2) @ [(Error, ''Login failed. Please try again.'')]\<rparr>\<rparr>))"

text \<open>The storage of the page's browser takes the two writes of a login, one after
  the other.\<close>

definition storage_takes_login :: "login \<Rightarrow> bool" where
  "storage_takes_login s =
     (storage_accepts (env s) (localStorage (env s)) ''isAuthenticated'' ''true''
      \<and> storage_accepts (env s) ((localStorage (env s))(''isAuthenticated'' \<mapsto> ''true''))
            ''userEmail'' (email s))"

subsection \<open>Properties of the matcher and of the login\<close>

lemma concI: "u \<in> A \<Longrightarrow> v \<in> B \<Longrightarrow> u @ v \<in> conc A B"
  unfolding conc_def by blast

lemma concE:
  assumes "w \<in> conc A B"
  obtains u v where "w = u @ v" "u \<in> A" "v \<in> B"
  using assms unfolding conc_def by blast

lemma Nil_conc: "[] \<in> conc A B \<longleftrightarrow> [] \<in> A \<and> [] \<in> B"
  unfolding conc_def by simp

lemma Cons_conc:
  "c # w \<in> conc A B \<longleftrightarrow>
     [] \<in> A \<and> c # w \<in> B \<or> (\<exists>u v. w = u @ v \<and> c # u \<in> A \<and> v \<in> B)"
proof
  assume "c # w \<in> conc A B"
  then obtain u v where uv: "c # w = u @ v" "u \<in> A" "v \<in> B"
    by (rule concE)
  show "[] \<in> A \<and> c # w \<in> B \<or> (\<exists>u v. w = u @ v \<and> c # u \<in> A \<and> v \<in> B)"
  proof (cases u)
    case Nil
    with uv show ?thesis by simp
  next
    case (Cons a u')
    with uv have "w = u' @ v" "c # u' \<in> A" by simp_all
    with uv(3) show ?thesis by blast
  qed
next
  assume "[] \<in> A \<and> c # w \<in> B \<or> (\<exists>u v. w = u @ v \<and> c # u \<in> A \<and> v \<in> B)"
  then show "c # w \<in> conc A B"
  proof
    assume "[] \<in> A \<and> c # w \<in> B"
    then have "[] @ (c # w) \<in> conc A B" by (intro concI) simp_all
    then show ?thesis by simp
  next
    assume "\<exists>u v. w = u @ v \<and> c # u \<in> A \<and> v \<in> B"
    then obtain u v where "w = u @ v" "c # u \<in> A" "v \<in> B" by blast
    then have "(c # u) @ v \<in> conc A B" by (intro concI)
    with \<open>w = u @ v\<close> show ?thesis by simp
  qed
qed

lemma nullable_language: "nullable r \<longleftrightarrow> [] \<in> language r"
  by (induction r) (simp_all add: Nil_conc repeated.none)

lemma repeated_Cons:
  "c # w \<in> repeated A \<longleftrightarrow> (\<exists>u v. w = u @ v \<and> c # u \<in> A \<and> v \<in> repeated A)"
proof
  assume "c # w \<in> repeated A"
  then show "\<exists>u v. w = u @ v \<and> c # u \<in> A \<and> v \<in> repeated A"
  proof (induction "c # w" rule: repeated.induct)
    case (more u v)
    show ?case
    proof (cases u)
      case Nil
      with more show ?thesis by simp
    next
      case (Cons a u')
      with more have "w = u' @ v" "c # u' \<in> A" "v \<in> repeated A"
        by simp_all
      then show ?thesis by blast
    qed
  qed
next
  assume "\<exists>u v. w = u @ v \<and> c # u \<in> A \<and> v \<in> repeated A"
  then obtain u v where "w = u @ v" "c # u \<in> A" "v \<in> repeated A"
    by blast
  then have "(c # u) @ v \<in> repeated A"
    by (intro repeated.more)
  with \<open>w = u @ v\<close> show "c # w \<in> repeated A"
    by simp
qed

lemma in_conc_iff: "w \<in> conc A B \<longleftrightarrow> (\<exists>u v. w = u @ v \<and> u \<in> A \<and> v \<in> B)"
  unfolding conc_def by blast

lemma rx_deriv_language: "w \<in> language (rx_deriv c r) \<longleftrightarrow> c # w \<in> language r"
proof (induction r arbitrary: w)
  case RZero
  show ?case by simp
next
  case ROne
  show ?case by simp
next
  case (RClass p)
  show ?case by simp
next
  case (RSeq r s)
  have left: "w \<in> conc (language (rx_deriv c r)) (language s)
      \<longleftrightarrow> (\<exists>u v. w = u @ v \<and> c # u \<in> language r \<and> v \<in> language s)"
    unfolding in_conc_iff RSeq.IH ..
  have right: "c # w \<in> conc (language r) (language s)
      \<longleftrightarrow> nullable r \<and> w \<in> language (rx_deriv c s)
          \<or> (\<exists>u v. w = u @ v \<and> c # u \<in> language r \<and> v \<in> language s)"
    unfolding Cons_conc nullable_language RSeq.IH ..
  show ?case
  proof (cases "nullable r")
    case True
    then show ?thesis
      using left right by simp blast
  next
    case False
    then show ?thesis
      using left right by simp
  qed
next
  case (RAlt r s)
  show ?case by (simp add: RAlt.IH)
next
  case (RStar r)
  have "w \<in> conc (language (rx_deriv c r)) (repeated (language r))
      \<longleftrightarrow> (\<exists>u v. w = u @ v \<and> c # u \<in> language r \<and> v \<in> repeated (language r))"
    unfolding in_conc_iff RStar.IH ..
  then show ?case
    by (simp add: repeated_Cons)
next
  case (RPlus r)
  have left: "w \<in> conc (language (rx_deriv c r)) (repeated (language r))
      \<longleftrightarrow> (\<exists>u v. w = u @ v \<and> c # u \<in> language r \<and> v \<in> repeated (language r))"
    unfolding in_conc_iff RPlus.IH ..
  have right: "c # w \<in> conc (language r) (repeated (language r))
      \<longleftrightarrow> [] \<in> language r \<and> (\<exists>u v. w = u @ v \<and> c # u \<in> language r \<and> v \<in> repeated (language r))
          \<or> (\<exists>u v. w = u @ v \<and> c # u \<in> language r \<and> v \<in> repeated (language r))"
    unfolding Cons_conc repeated_Cons ..
  show ?case
    using left right by simp blast
qed

lemma regex_test_language: "regex_test r s \<longleftrightarrow> s \<in> language r"
  unfolding regex_test_def
  by (induction s arbitrary: r) (simp_all add: nullable_language rx_deriv_language)


lemma repeated_class: "repeated (language (RClass p)) = {w. \<forall>c \<in> set w. p c}"
proof (intro equalityI subsetI)
  fix w assume "w \<in> repeated (language (RClass p))"
  then have "\<forall>c \<in> set w. p c"
    by (induction rule: repeated.induct) auto
  then show "w \<in> {w. \<forall>c \<in> set w. p c}"
    by simp
next
  fix w assume "w \<in> {w. \<forall>c \<in> set w. p c}"
  then have "\<forall>c \<in> set w. p c" by simp
  then show "w \<in> repeated (language (RClass p))"
  proof (induction w)
    case Nil
    show ?case by (rule repeated.none)
  next
    case (Cons c w)
    then have "[c] \<in> language (RClass p)" "w \<in> repeated (language (RClass p))"
      by simp_all
    then have "[c] @ w \<in> repeated (language (RClass p))"
      by (rule repeated.more)
    then show ?case by simp
  qed
qed

lemma language_plus_class:
  "language (RPlus (RClass p)) = {w. w \<noteq> [] \<and> (\<forall>c \<in> set w. p c)}"
proof (intro equalityI subsetI)
  fix w assume "w \<in> language (RPlus (RClass p))"
  then have "w \<in> conc (language (RClass p)) (repeated (language (RClass p)))"
    by simp
  then obtain u v where uv: "w = u @ v" "u \<in> language (RClass p)" "v \<in> repeated (language (RClass p))"
    by (rule concE)
  from uv(3) have "\<forall>c \<in> set v. p c"
    unfolding repeated_class by simp
  moreover from uv(2) obtain c where "u = [c]" "p c"
    by auto
  ultimately show "w \<in> {w. w \<noteq> [] \<and> (\<forall>c \<in> set w. p c)}"
    using uv(1) by simp
next
  fix w assume "w \<in> {w. w \<noteq> [] \<and> (\<forall>c \<in> set w. p c)}"
  then obtain c w' where w: "w = c # w'" "p c" "\<forall>c \<in> set w'. p c"
    by (cases w) auto
  have "[c] \<in> language (RClass p)"
    using w(2) by simp
  moreover have "w' \<in> repeated (language (RClass p))"
    unfolding repeated_class using w(3) by simp
  ultimately have "[c] @ w' \<in> conc (language (RClass p)) (repeated (language (RClass p)))"
    by (rule concI)
  with w show "w \<in> language (RPlus (RClass p))"
    by simp
qed

lemma language_single: "language (RClass (\<lambda>c. c = a)) = {[a]}"
  by auto

lemma conc_around:
  "s \<in> conc A (conc {x} (conc B (conc {y} C))) \<longleftrightarrow>
     (\<exists>a b c. s = a @ x @ b @ y @ c \<and> a \<in> A \<and> b \<in> B \<and> c \<in> C)"
proof
  assume "s \<in> conc A (conc {x} (conc B (conc {y} C)))"
  then obtain a r1 where 1: "s = a @ r1" "a \<in> A" "r1 \<in> conc {x} (conc B (conc {y} C))"
    by (rule concE)
  from 1(3) obtain x' r2 where 2: "r1 = x' @ r2" "x' \<in> {x}" "r2 \<in> conc B (conc {y} C)"
    by (rule concE)
  from 2(3) obtain b r3 where 3: "r2 = b @ r3" "b \<in> B" "r3 \<in> conc {y} C"
    by (rule concE)
  from 3(3) obtain y' c where 4: "r3 = y' @ c" "y' \<in> {y}" "c \<in> C"
    by (rule concE)
  from 1 2 3 4 have "s = a @ x @ b @ y @ c" "a \<in> A" "b \<in> B" "c \<in> C"
    by simp_all
  then show "\<exists>a b c. s = a @ x @ b @ y @ c \<and> a \<in> A \<and> b \<in> B \<and> c \<in> C"
    by blast
next
  assume "\<exists>a b c. s = a @ x @ b @ y @ c \<and> a \<in> A \<and> b \<in> B \<and> c \<in> C"
  then obtain a b c where s: "s = a @ x @ b @ y @ c" and abc: "a \<in> A" "b \<in> B" "c \<in> C"
    by blast
  have "y @ c \<in> conc {y} C"
    by (rule concI [OF singletonI abc(3)])
  then have "b @ y @ c \<in> conc B (conc {y} C)"
    by (rule concI [OF abc(2)])
  then have "x @ b @ y @ c \<in> conc {x} (conc B (conc {y} C))"
    by (rule concI [OF singletonI])
  then have "a @ x @ b @ y @ c \<in> conc A (conc {x} (conc B (conc {y} C)))"
    by (rule concI [OF abc(1)])
  with s show "s \<in> conc A (conc {x} (conc B (conc {y} C)))"
    by simp
qed

lemma emailRegex_test:
  "regex_test emailRegex s \<longleftrightarrow>
     (\<exists>name host tld. s = name @ ''@'' @ host @ ''.'' @ tld
        \<and> name \<noteq> [] \<and> host \<noteq> [] \<and> tld \<noteq> []
        \<and> (\<forall>c \<in> set (name @ host @ tld). \<not> js_whitespace c \<and> c \<noteq> CHR ''@''))"
proof -
  let ?P = "{w. w \<noteq> [] \<and> (\<forall>c \<in> set w. not_space_or_at c)}"
  have "language emailRegex = conc ?P (conc {''@''} (conc ?P (conc {''.''} ?P)))"
    unfolding emailRegex_def language.simps(4) language_plus_class language_single ..
  then have "regex_test emailRegex s \<longleftrightarrow>
      (\<exists>name host tld. s = name @ ''@'' @ host @ ''.'' @ tld
        \<and> name \<in> ?P \<and> host \<in> ?P \<and> tld \<in> ?P)"
    by (simp only: regex_test_language conc_around)
  also have "\<dots> \<longleftrightarrow> (\<exists>name host tld. s = name @ ''@'' @ host @ ''.'' @ tld
        \<and> name \<noteq> [] \<and> host \<noteq> [] \<and> tld \<noteq> []
        \<and> (\<forall>c \<in> set (name @ host @ tld). \<not> js_whitespace c \<and> c \<noteq> CHR ''@''))"
    by (simp only: mem_Collect_eq set_append ball_Un not_space_or_at_def conj_ac)
  finally show ?thesis .
qed

lemma emailRegex_nonempty: "regex_test emailRegex e \<Longrightarrow> e \<noteq> []"
  by (auto simp: regex_test_def emailRegex_def)

lemma validateEmail_ok: "regex_test emailRegex e \<Longrightarrow> validateEmail e = []"
  using emailRegex_nonempty by (simp add: validateEmail_def)

lemma validatePassword_ok: "6 \<le> length p \<Longrightarrow> validatePassword p = []"
  by (auto simp: validatePassword_def)

lemma login_attempt_stored:
  assumes "storage_takes_login s"
  shows "login_attempt s =
           Inr (s\<lparr>env := (env s)
                  \<lparr>localStorage := (localStorage (env s))
                     (''isAuthenticated'' \<mapsto> ''true'', ''userEmail'' \<mapsto> email s),
                   toasts := toasts (env s) @ [(Success, ''Login successful!'')],
                   navigated := navigated (env s) @ [''/chat'']\<rparr>\<rparr>)"
  using assms by (simp add: login_attempt_def setItem_def storage_takes_login_def)

lemma login_attempt_refused:
  assumes "\<not> storage_takes_login s"
  shows "\<exists>t. login_attempt s = Inl t \<and> email t = email s \<and> password t = password s
           \<and> errors t = errors s \<and> touched t = touched s
           \<and> toasts (env t) = toasts (env s) \<and> navigated (env t) = navigated (env s)
           \<and> requests (env t) = requests (env s)
           \<and> localStorage (env t) ''userEmail'' = localStorage (env s) ''userEmail''"
  using assms by (auto simp: login_attempt_def setItem_def storage_takes_login_def)

lemma login_handleSubmit_stored:
  fixes t :: login
  assumes "regex_test emailRegex (email t)" and "6 \<le> length (password t)"
    and "storage_takes_login t"
  shows "login_handleSubmit t =
           t\<lparr>errors := \<lparr>email_error = [], password_error = []\<rparr>,
             touched := \<lparr>email_touched = True, password_touched = True\<rparr>,
             loading := True,
             env := (env t)
               \<lparr>localStorage := (localStorage (env t))
                  (''isAuthenticated'' \<mapsto> ''true'', ''userEmail'' \<mapsto> email t),
                toasts := toasts (env t) @ [(Success, ''Login successful!'')],
                navigated := navigated (env t) @ [''/chat'']\<rparr>\<rparr>"
proof -
  let ?t1 = "t\<lparr>errors := \<lparr>email_error = [], password_error = []\<rparr>,
                touched := \<lparr>email_touched = True, password_touched = True\<rparr>,
                loading := True\<rparr>"
  from assms(3) have "storage_takes_login ?t1"
    by (simp add: storage_takes_login_def)
  from login_attempt_stored [OF this] assms(1,2) show ?thesis
    by (simp add: login_handleSubmit_def Let_def validateEmail_ok validatePassword_ok)
qed

lemma login_handleSubmit_refused:
  fixes t :: login
  assumes "regex_test emailRegex (email t)" and "6 \<le> length (password t)"
    and "\<not> storage_takes_login t"
  shows "navigated (env (login_handleSubmit t)) = navigated (env t)
       \<and> toasts (env (login_handleSubmit t)) =
           toasts (env t) @ [(Error, ''Login failed. Please try again.'')]
       \<and> loading (login_handleSubmit t) = False
       \<and> localStorage (env (login_handleSubmit t)) ''userEmail'' = localStorage (env t) ''userEmail''
       \<and> requests (env (login_handleSubmit t)) = requests (env t)"
proof -
  let ?t1 = "t\<lparr>errors := \<lparr>email_error = [], password_error = []\<rparr>,
                touched := \<lparr>email_touched = True, password_touched = True\<rparr>,
                loading := True\<rparr>"
  from assms(3) have "\<not> storage_takes_login ?t1"
    by (simp add: storage_takes_login_def)
  from login_attempt_refused [OF this] obtain u where u: "login_attempt ?t1 = Inl u"
      "toasts (env u) = toasts (env t)" "navigated (env u) = navigated (env t)"
      "requests (env u) = requests (env t)"
      "localStorage (env u) ''userEmail'' = localStorage (env t) ''userEmail''"
    by auto
  from u assms(1,2) show ?thesis
    by (simp add: login_handleSubmit_def Let_def validateEmail_ok validatePassword_ok)
qed

text \<open>
  C8, as the code has it. A submission whose email matches the pattern and whose
  password has at least six characters sends no request, and how it ends depends on
  the browser's storage alone. When the storage takes the two writes, it ends the
  same way whatever the credentials: no field error, \<^verbatim>\<open>isAuthenticated\<close> set to
  \<^verbatim>\<open>'true'\<close> and the email stored in \<^verbatim>\<open>localStorage\<close>, the success toast and the
  navigation to \<^verbatim>\<open>/chat\<close>; two such submissions from the same page differ in nothing
  but the credentials typed and the email stored. When the storage refuses one of
  the writes, the submission is rejected: the toast
  \<^verbatim>\<open>Login failed. Please try again.\<close>, no navigation, no email stored, and the form
  ready again.
\<close>

theorem login_accepts_valid_credentials_when_stored:
  fixes s :: login
  assumes "regex_test emailRegex (email s)" and "6 \<le> length (password s)"
  shows "(storage_takes_login s \<longrightarrow>
           login_handleSubmit s =
             s\<lparr>errors := \<lparr>email_error = [], password_error = []\<rparr>,
               touched := \<lparr>email_touched = True, password_touched = True\<rparr>,
               loading := True,
               env := (env s)
                 \<lparr>localStorage := (localStorage (env s))
                    (''isAuthenticated'' \<mapsto> ''true'', ''userEmail'' \<mapsto> email s),
                  toasts := toasts (env s) @ [(Success, ''Login successful!'')],
                  navigated := navigated (env s) @ [''/chat'']\<rparr>\<rparr>)
       \<and> (\<not> storage_takes_login s \<longrightarrow>
             navigated (env (login_handleSubmit s)) = navigated (env s)
           \<and> toasts (env (login_handleSubmit s)) =
               toasts (env s) @ [(Error, ''Login failed. Please try again.'')]
           \<and> loading (login_handleSubmit s) = False
           \<and> localStorage (env (login_handleSubmit s)) ''userEmail'' =
               localStorage (env s) ''userEmail'')
       \<and> requests (env (login_handleSubmit s)) = requests (env s)
       \<and> (\<forall>e p. regex_test emailRegex e \<and> 6 \<le> length p
               \<and> storage_takes_login s \<and> storage_takes_login (s\<lparr>email := e, password := p\<rparr>) \<longrightarrow>
             login_handleSubmit (s\<lparr>email := e, password := p\<rparr>) =
               (login_handleSubmit s)
                 \<lparr>email := e, password := p,
                  env := (env (login_handleSubmit s))
                    \<lparr>localStorage := (localStorage (env (login_handleSubmit s)))(''userEmail'' \<mapsto> e)\<rparr>\<rparr>)"
proof (intro conjI allI impI)
  assume "storage_takes_login s"
  then show "login_handleSubmit s =
             s\<lparr>errors := \<lparr>email_error = [], password_error = []\<rparr>,
               touched := \<lparr>email_touched = True, password_touched = True\<rparr>,
               loading := True,
               env := (env s)
                 \<lparr>localStorage := (localStorage (env s))
                    (''isAuthenticated'' \<mapsto> ''true'', ''userEmail'' \<mapsto> email s),
                  toasts := toasts (env s) @ [(Success, ''Login successful!'')],
                  navigated := navigated (env s) @ [''/chat'']\<rparr>\<rparr>"
    by (rule login_handleSubmit_stored [OF assms])
next
  assume no: "\<not> storage_takes_login s"
  note r = login_handleSubmit_refused [OF assms no]
  from r show "navigated (env (login_handleSubmit s)) = navigated (env s)" by simp
  from r show "toasts (env (login_handleSubmit s)) =
               toasts (env s) @ [(Error, ''Login failed. Please try again.'')]" by simp
  from r show "loading (login_handleSubmit s) = False" by simp
  from r show "localStorage (env (login_handleSubmit s)) ''userEmail'' =
               localStorage (env s) ''userEmail''" by simp
next
  show "requests (env (login_handleSubmit s)) = requests (env s)"
  proof (cases "storage_takes_login s")
    case True
    then show ?thesis by (simp add: login_handleSubmit_stored [OF assms])
  next
    case False
    from login_handleSubmit_refused [OF assms False] show ?thesis by simp
  qed
next
  fix e p :: string
  assume ep: "regex_test emailRegex e \<and> 6 \<le> length p
               \<and> storage_takes_login s \<and> storage_takes_login (s\<lparr>email := e, password := p\<rparr>)"
  then have "login_handleSubmit (s\<lparr>email := e, password := p\<rparr>) =
       (s\<lparr>email := e, password := p\<rparr>)\<lparr>errors := \<lparr>email_error = [], password_error = []\<rparr>,
             touched := \<lparr>email_touched = True, password_touched = True\<rparr>,
             loading := True,
             env := (env s)
               \<lparr>localStorage := (localStorage (env s))
                  (''isAuthenticated'' \<mapsto> ''true'', ''userEmail'' \<mapsto> e),
                toasts := toasts (env s) @ [(Success, ''Login successful!'')],
                navigated := navigated (env s) @ [''/chat'']\<rparr>\<rparr>"
    using login_handleSubmit_stored [of "s\<lparr>email := e, password := p\<rparr>"] by simp
  moreover from ep have "storage_takes_login s" by simp
  ultimately show "login_handleSubmit (s\<lparr>email := e, password := p\<rparr>) =
               (login_handleSubmit s)
                 \<lparr>email := e, password := p,
                  env := (env (login_handleSubmit s))
                    \<lparr>localStorage := (localStorage (env (login_handleSubmit s)))(''userEmail'' \<mapsto> e)\<rparr>\<rparr>"
    by (simp add: login_handleSubmit_stored [OF assms])
qed


subsection \<open>Chat.jsx\<close>

text \<open>
  \<open>vite_api_url\<close> is the build-time \<^verbatim>\<open>import.meta.env.VITE_API_URL\<close>, \<open>None\<close> when
  it is not set; \<^verbatim>\<open>||\<close> also falls through on the empty string.
\<close>

definition API_BASE :: "string option \<Rightarrow> string" where
  "API_BASE vite_api_url =
     (case vite_api_url of
        None \<Rightarrow> ''http://127.0.0.1:8002''
      | Some u \<Rightarrow> if u = [] then ''http://127.0.0.1:8002'' else u)"

definition API_URL :: "string option \<Rightarrow> string" where
  "API_URL vite_api_url = API_BASE vite_api_url @ ''/api/v1/query/legal''"

datatype message_type = User | Assistant | Failure

record message =
  msg_type :: message_type
  msg_content :: "json option"
  msg_confidence :: "json option"
  msg_processingTime :: "json option"

text \<open>The state of the \<^verbatim>\<open>Chat\<close> component. \<open>render_failed\<close> says that an updater of
  the state has thrown while React rendered the page.\<close>

record chat =
  query :: string
  messages :: "message list"
  isLoading :: bool
  isConnected :: bool
  isCheckingConnection :: bool
  render_failed :: bool
  chat_env :: browser

text \<open>
  What comes back from \<^verbatim>\<open>fetch\<close>: \<open>None\<close> when the promise rejects, else the
  response with its \<^verbatim>\<open>ok\<close> flag and the value \<^verbatim>\<open>response.json()\<close> resolves to
  (\<open>None\<close> when that rejects). Reading a property of \<^verbatim>\<open>null\<close> throws; an object
  gives the value stored under the key, anything else \<^verbatim>\<open>undefined\<close> (\<open>None\<close>) for the
  three keys read here.
\<close>

record http_response =
  ok :: bool
  json_body :: "json option"

definition property :: "json \<Rightarrow> string \<Rightarrow> unit + json option" where
  "property data k =
     (case data of
        JNull \<Rightarrow> Inl ()
      | JObject kvs \<Rightarrow> Inr (map_of kvs k)
      | _ \<Rightarrow> Inr None)"

text \<open>
  The updater \<^verbatim>\<open>prev => [...prev, {type: 'assistant', content: data.answer, ...}]\<close>
  handed to \<^verbatim>\<open>setMessages\<close>. React runs it when it renders the page, after
  \<^verbatim>\<open>handleSubmit\<close> has left its \<^verbatim>\<open>try\<close> block: the three properties of \<open>data\<close> are
  read there, and when \<open>data\<close> is \<^verbatim>\<open>null\<close> the exception leaves the render, not the
  \<^verbatim>\<open>try\<close> block. No message is added then.
\<close>

definition add_answer :: "json \<Rightarrow> chat \<Rightarrow> chat" where
  "add_answer data s =
     (case (property data ''answer'', property data ''confidence'',
            property data ''processing_time_ms'') of
        (Inr answer, Inr confidence, Inr processing_time_ms) \<Rightarrow>
          s\<lparr>messages := messages s @
               [\<lparr>msg_type = Assistant, msg_content = answer,
                 msg_confidence = confidence,
                 msg_processingTime = processing_time_ms\<rparr>]\<rparr>
      | _ \<Rightarrow> s\<lparr>render_failed := True\<rparr>)"

text \<open>The \<^verbatim>\<open>try\<close> block after the request is sent: \<open>Inl\<close> is a thrown exception
  (\<^verbatim>\<open>fetch\<close> rejects, the response is not \<^verbatim>\<open>ok\<close>, or \<^verbatim>\<open>response.json()\<close>
  rejects).\<close>

definition receive_answer :: "http_response option \<Rightarrow> chat \<Rightarrow> unit + chat" where
  "receive_answer reply s =
     (case reply of
        None \<Rightarrow> Inl ()
      | Some response \<Rightarrow>
          if \<not> ok response then Inl ()
          else (case json_body response of
                  None \<Rightarrow> Inl ()
                | Some data \<Rightarrow> Inr (add_answer data s)))"

definition query_request :: "string option \<Rightarrow> string \<Rightarrow> http_request" where
  "query_request vite_api_url userMessage =
     \<lparr>http_method = ''POST'',
      url = API_URL vite_api_url,
      headers = [(''Content-Type'', ''application/json'')],
      body = Some (JObject [(''query'', JString userMessage)])\<rparr>"

definition chat_handleSubmit :: "string option \<Rightarrow> http_response option \<Rightarrow> chat \<Rightarrow> chat" where
  "chat_handleSubmit vite_api_url reply s =
     (if trim (query s) = [] \<or> isLoading s then s
      else
        let userMessage = trim (query s);
            s1 = s\<lparr>query := [],
                   messages := messages s @
                     [\<lparr>msg_type = User, msg_content = Some (JString userMessage),
                       msg_confidence = None, msg_processingTime = None\<rparr>],
                   isLoading := True,
                   chat_env := (chat_env s)
                     \<lparr>requests := requests (chat_env s) @ [query_request vite_api_url userMessage]\<rparr>\<rparr>;
            s2 = (case receive_answer reply s1 of
                    Inr s' \<Rightarrow> s'
                  | Inl _ \<Rightarrow>
                      s1\<lparr>messages := messages s1 @
                           [\<lparr>msg_type = Failure,
                             msg_content = Some (JString
                               ''Unable to connect. Please ensure the server is running on port 8002.''),
                             msg_confidence = None, msg_processingTime = None\<rparr>],
                         chat_env := (chat_env s1)
                           \<lparr>toasts := toasts (chat_env s1) @
                              [(Error, ''Failed to get response. Please try again.'')]\<rparr>\<rparr>)
        in s2\<lparr>isLoading := False\<rparr>)"

text \<open>\<^verbatim>\<open>checkConnection\<close>, the only other request of the page: a \<^verbatim>\<open>GET\<close> of
  \<^verbatim>\<open>/health\<close>.\<close>

definition checkConnection :: "string option \<Rightarrow> http_response option \<Rightarrow> chat \<Rightarrow> chat" where
  "checkConnection vite_api_url reply s =
     (let s1 = s\<lparr>isCheckingConnection := True,
                 chat_env := (chat_env s)
                   \<lparr>requests := requests (chat_env s) @
                      [\<lparr>http_method = ''GET'', url = API_BASE vite_api_url @ ''/health'',
                        headers = [], body = None\<rparr>]\<rparr>\<rparr>;
          s2 = (case reply of
                  None \<Rightarrow>
                    s1\<lparr>isConnected := False,
                       chat_env := (chat_env s1)\<lparr>toasts := toasts (chat_env s1) @
                         [(Error, ''Could not connect to server. Please ensure the backend is running.'')]\<rparr>\<rparr>
                | Some response \<Rightarrow>
                    if ok response
                    then s1\<lparr>isConnected := True,
                            chat_env := (chat_env s1)\<lparr>toasts := toasts (chat_env s1) @
                              [(Success, ''Connected to Legal AI server'')]\<rparr>\<rparr>
                    else s1\<lparr>isConnected := False,
                            chat_env := (chat_env s1)\<lparr>toasts := toasts (chat_env s1) @
                              [(Warning, ''Server is not responding properly'')]\<rparr>\<rparr>)
      in s2\<lparr>isCheckingConnection := False\<rparr>)"

text \<open>
  The Query API as the spec words it (section 6), to compare the request with:
  \<^verbatim>\<open>POST /query\<close> with a JSON body
  \<^verbatim>\<open>{query: string, use_corrective_rag?: bool, use_self_reflection?: bool, detect_hallucinations?: bool}\<close>.
  \<open>url_path\<close> is the path of an \<^verbatim>\<open>http(s)\<close> URL: what follows the host, up to a
  \<^verbatim>\<open>?\<close> or \<^verbatim>\<open>#\<close>.
\<close>

definition url_path :: "string \<Rightarrow> string" where
  "url_path u =
     (let rest = (if prefix ''http://'' u then drop 7 u
                  else if prefix ''https://'' u then drop 8 u else u)
      in takeWhile (\<lambda>c. c \<noteq> CHR ''?'' \<and> c \<noteq> CHR ''#'') (dropWhile (\<lambda>c. c \<noteq> CHR ''/'') rest))"

definition is_bool :: "json \<Rightarrow> bool" where
  "is_bool j = (case j of JBool _ \<Rightarrow> True | _ \<Rightarrow> False)"

definition is_string :: "json \<Rightarrow> bool" where
  "is_string j = (case j of JString _ \<Rightarrow> True | _ \<Rightarrow> False)"

definition spec_query_body :: "json \<Rightarrow> bool" where
  "spec_query_body j =
     (case j of
        JObject kvs \<Rightarrow>
          distinct (map fst kvs)
        \<and> list_ex (\<lambda>kv. fst kv = ''query'' \<and> is_string (snd kv)) kvs
        \<and> list_all (\<lambda>kv. fst kv = ''query'' \<and> is_string (snd kv)
                        \<or> fst kv \<in> set [''use_corrective_rag'', ''use_self_reflection'',
                                          ''detect_hallucinations''] \<and> is_bool (snd kv)) kvs
      | _ \<Rightarrow> False)"

definition spec_query_request :: "http_request \<Rightarrow> bool" where
  "spec_query_request r =
     (http_method r = ''POST'' \<and> url_path (url r) = ''/query''
      \<and> (case body r of None \<Rightarrow> False | Some j \<Rightarrow> spec_query_body j))"

lemma chat_env_add_answer: "chat_env (add_answer data s) = chat_env s"
  by (simp add: add_answer_def split: sum.splits)

lemma url_path_default: "url_path (API_URL None) = ''/api/v1/query/legal''"
  by (simp add: url_path_def API_URL_def API_BASE_def)

text \<open>
  C4, as the code has it. A submission of the chat page sends no request when the
  trimmed input is empty or an answer is pending, and otherwise exactly one: a
  \<^verbatim>\<open>POST\<close> to \<^verbatim>\<open>API_BASE/api/v1/query/legal\<close> with the header
  \<^verbatim>\<open>Content-Type: application/json\<close> and the body \<^verbatim>\<open>{query: <trimmed input>}\<close>,
  which has the shape of the Query API's body (a string \<^verbatim>\<open>query\<close>, none of the
  optional booleans).
\<close>

theorem chat_query_request:
  fixes s :: chat
  shows "requests (chat_env (chat_handleSubmit vite_api_url reply s)) =
           requests (chat_env s) @
             (if trim (query s) = [] \<or> isLoading s then []
              else [\<lparr>http_method = ''POST'',
                     url = API_BASE vite_api_url @ ''/api/v1/query/legal'',
                     headers = [(''Content-Type'', ''application/json'')],
                     body = Some (JObject [(''query'', JString (trim (query s)))])\<rparr>])
       \<and> spec_query_body (JObject [(''query'', JString (trim (query s)))])"
  by (simp add: chat_handleSubmit_def receive_answer_def chat_env_add_answer query_request_def
        API_URL_def Let_def spec_query_body_def is_string_def
      split: option.splits sum.splits prod.splits)


subsection \<open>A login and a chat to run\<close>

definition fresh_browser :: browser where
  "fresh_browser =
     \<lparr>localStorage = Map.empty, storage_accepts = (\<lambda>m key v. True), toasts = [],
      navigated = [], requests = []\<rparr>"

text \<open>A browser whose storage is disabled: every write is refused.\<close>

definition storage_disabled_browser :: browser where
  "storage_disabled_browser = fresh_browser\<lparr>storage_accepts := (\<lambda>m key v. False)\<rparr>"

definition example_login :: login where
  "example_login =
     \<lparr>email = ''a@b.co'', password = ''secret'',
      errors = \<lparr>email_error = [], password_error = []\<rparr>,
      touched = \<lparr>email_touched = False, password_touched = False\<rparr>,
      loading = False, env = fresh_browser\<rparr>"

definition example_chat :: chat where
  "example_chat =
     \<lparr>query = '' What is Article 14? '', messages = [], isLoading = False,
      isConnected = True, isCheckingConnection = False, render_failed = False,
      chat_env = fresh_browser\<rparr>"

lemma emailRegex_examples:
  "regex_test emailRegex ''a@b.co''"
  "regex_test emailRegex ''x.y@mail.example.org''"
  "\<not> regex_test emailRegex ''a@b''"
  "\<not> regex_test emailRegex ''a b@c.d''"
  by (simp_all add: regex_test_def emailRegex_def not_space_or_at_def js_whitespace_def)

theorem login_accepts_valid_credentials_when_stored_witness:
  "regex_test emailRegex (email example_login) \<and> 6 \<le> length (password example_login)
   \<and> storage_takes_login example_login
   \<and> storage_takes_login (example_login\<lparr>email := ''x.y@mail.example.org'', password := ''hunter22''\<rparr>)
   \<and> localStorage (env (login_handleSubmit example_login)) ''isAuthenticated'' = Some ''true''
   \<and> localStorage (env (login_handleSubmit example_login)) ''userEmail'' = Some ''a@b.co''
   \<and> toasts (env (login_handleSubmit example_login)) = [(Success, ''Login successful!'')]
   \<and> navigated (env (login_handleSubmit example_login)) = [''/chat'']
   \<and> requests (env (login_handleSubmit example_login)) = []
   \<and> login_handleSubmit (example_login\<lparr>email := ''x.y@mail.example.org'', password := ''hunter22''\<rparr>) =
       (login_handleSubmit example_login)
         \<lparr>email := ''x.y@mail.example.org'', password := ''hunter22'',
          env := (env (login_handleSubmit example_login))
            \<lparr>localStorage := (localStorage (env (login_handleSubmit example_login)))
               (''userEmail'' \<mapsto> ''x.y@mail.example.org'')\<rparr>\<rparr>
   \<and> \<not> storage_takes_login (example_login\<lparr>env := storage_disabled_browser\<rparr>)
   \<and> toasts (env (login_handleSubmit (example_login\<lparr>env := storage_disabled_browser\<rparr>))) =
       [(Error, ''Login failed. Please try again.'')]
   \<and> navigated (env (login_handleSubmit (example_login\<lparr>env := storage_disabled_browser\<rparr>))) = []
   \<and> loading (login_handleSubmit (example_login\<lparr>env := storage_disabled_browser\<rparr>)) = False"
proof -
  let ?d = "example_login\<lparr>env := storage_disabled_browser\<rparr>"
  have h1: "regex_test emailRegex (email example_login)"
    by (simp add: example_login_def emailRegex_examples)
  have h2: "6 \<le> length (password example_login)"
    by (simp add: example_login_def)
  have h3: "storage_takes_login example_login"
    by (simp add: storage_takes_login_def example_login_def fresh_browser_def)
  have h4: "storage_takes_login (example_login\<lparr>email := ''x.y@mail.example.org'', password := ''hunter22''\<rparr>)"
    by (simp add: storage_takes_login_def example_login_def fresh_browser_def)
  have d1: "regex_test emailRegex (email ?d)"
    by (simp add: example_login_def emailRegex_examples)
  have d2: "6 \<le> length (password ?d)"
    by (simp add: example_login_def)
  have d3: "\<not> storage_takes_login ?d"
    by (simp add: storage_takes_login_def storage_disabled_browser_def)
  note t = login_accepts_valid_credentials_when_stored [OF h1 h2]
  note u = login_accepts_valid_credentials_when_stored [OF d1 d2]
  from t h3 h4 have other: "login_handleSubmit (example_login\<lparr>email := ''x.y@mail.example.org'', password := ''hunter22''\<rparr>) =
       (login_handleSubmit example_login)
         \<lparr>email := ''x.y@mail.example.org'', password := ''hunter22'',
          env := (env (login_handleSubmit example_login))
            \<lparr>localStorage := (localStorage (env (login_handleSubmit example_login)))
               (''userEmail'' \<mapsto> ''x.y@mail.example.org'')\<rparr>\<rparr>"
    by (simp add: emailRegex_examples)
  from t h3 have run: "login_handleSubmit example_login =
           example_login\<lparr>errors := \<lparr>email_error = [], password_error = []\<rparr>,
             touched := \<lparr>email_touched = True, password_touched = True\<rparr>,
             loading := True,
             env := (env example_login)
               \<lparr>localStorage := (localStorage (env example_login))
                  (''isAuthenticated'' \<mapsto> ''true'', ''userEmail'' \<mapsto> email example_login),
                toasts := toasts (env example_login) @ [(Success, ''Login successful!'')],
                navigated := navigated (env example_login) @ [''/chat'']\<rparr>\<rparr>"
    by blast
  have ok: "localStorage (env (login_handleSubmit example_login)) ''isAuthenticated'' = Some ''true''"
    "localStorage (env (login_handleSubmit example_login)) ''userEmail'' = Some ''a@b.co''"
    "toasts (env (login_handleSubmit example_login)) = [(Success, ''Login successful!'')]"
    "navigated (env (login_handleSubmit example_login)) = [''/chat'']"
    "requests (env (login_handleSubmit example_login)) = []"
    unfolding run by (simp_all add: example_login_def fresh_browser_def)
  from u d3 have refused:
    "toasts (env (login_handleSubmit ?d)) = toasts (env ?d) @ [(Error, ''Login failed. Please try again.'')]"
    "navigated (env (login_handleSubmit ?d)) = navigated (env ?d)"
    "loading (login_handleSubmit ?d) = False"
    by blast+
  have "toasts (env (login_handleSubmit ?d)) = [(Error, ''Login failed. Please try again.'')]"
    "navigated (env (login_handleSubmit ?d)) = []"
    unfolding refused by (simp_all add: storage_disabled_browser_def fresh_browser_def)
  with h1 h2 h3 h4 ok other d3 refused(3) show ?thesis
    by (intro conjI)
qed

text \<open>
  C8, as it is stated, fails in a browser whose storage is disabled: the credentials
  pass the local validation, \<^verbatim>\<open>setItem\<close> throws, and the submission is rejected with
  \<^verbatim>\<open>Login failed. Please try again.\<close>; nothing is stored and the page stays.
\<close>

theorem login_storage_disabled_counterexample:
  "validateEmail (email (example_login\<lparr>env := storage_disabled_browser\<rparr>)) = []
   \<and> validatePassword (password (example_login\<lparr>env := storage_disabled_browser\<rparr>)) = []
   \<and> login_handleSubmit (example_login\<lparr>env := storage_disabled_browser\<rparr>) =
       example_login
         \<lparr>errors := \<lparr>email_error = [], password_error = []\<rparr>,
          touched := \<lparr>email_touched = True, password_touched = True\<rparr>,
          loading := False,
          env := storage_disabled_browser
            \<lparr>toasts := [(Error, ''Login failed. Please try again.'')]\<rparr>\<rparr>
   \<and> localStorage (env (login_handleSubmit (example_login\<lparr>env := storage_disabled_browser\<rparr>)))
        ''isAuthenticated'' = None
   \<and> navigated (env (login_handleSubmit (example_login\<lparr>env := storage_disabled_browser\<rparr>))) = []"
proof -
  have v: "validateEmail ''a@b.co'' = []" "validatePassword ''secret'' = []"
    by (simp_all add: validateEmail_ok validatePassword_ok emailRegex_examples)
  have run: "login_handleSubmit (example_login\<lparr>env := storage_disabled_browser\<rparr>) =
       example_login
         \<lparr>errors := \<lparr>email_error = [], password_error = []\<rparr>,
          touched := \<lparr>email_touched = True, password_touched = True\<rparr>,
          loading := False,
          env := storage_disabled_browser
            \<lparr>toasts := [(Error, ''Login failed. Please try again.'')]\<rparr>\<rparr>"
    by (simp add: login_handleSubmit_def Let_def login_attempt_def setItem_def v
          example_login_def storage_disabled_browser_def fresh_browser_def)
  show ?thesis
    unfolding run
    by (simp add: v example_login_def storage_disabled_browser_def fresh_browser_def)
qed

lemma example_chat_trim: "trim (query example_chat) = ''What is Article 14?''"
  by (simp add: example_chat_def trim_def js_whitespace_def)

theorem chat_query_request_witness:
  "requests (chat_env (chat_handleSubmit None None example_chat)) =
     [\<lparr>http_method = ''POST'', url = ''http://127.0.0.1:8002/api/v1/query/legal'',
       headers = [(''Content-Type'', ''application/json'')],
       body = Some (JObject [(''query'', JString ''What is Article 14?'')])\<rparr>]
   \<and> spec_query_body (JObject [(''query'', JString ''What is Article 14?'')])"
proof -
  have idle: "\<not> isLoading example_chat" "requests (chat_env example_chat) = []"
    by (simp_all add: example_chat_def fresh_browser_def)
  from chat_query_request [of None None example_chat] show ?thesis
    by (simp add: example_chat_trim idle API_BASE_def)
qed

text \<open>
  C4, as it is stated, fails on the endpoint: the request the page sends for a
  question goes to the path \<^verbatim>\<open>/api/v1/query/legal\<close>, not to \<^verbatim>\<open>/query\<close>.
\<close>

theorem chat_query_endpoint_counterexample:
  "requests (chat_env (chat_handleSubmit None None example_chat)) =
     [query_request None ''What is Article 14?'']
   \<and> url (query_request None ''What is Article 14?'') = ''http://127.0.0.1:8002/api/v1/query/legal''
   \<and> url_path (url (query_request None ''What is Article 14?'')) = ''/api/v1/query/legal''
   \<and> \<not> spec_query_request (query_request None ''What is Article 14?'')"
proof -
  have "requests (chat_env (chat_handleSubmit None None example_chat)) =
     [query_request None ''What is Article 14?'']"
    by (simp add: chat_handleSubmit_def receive_answer_def Let_def example_chat_trim)
       (simp add: example_chat_def fresh_browser_def)
  moreover have "url_path (url (query_request None ''What is Article 14?'')) = ''/api/v1/query/legal''"
    by (simp add: query_request_def url_path_default)
  ultimately show ?thesis
    by (simp add: spec_query_request_def) (simp add: query_request_def API_URL_def API_BASE_def)
qed

section \<open>The evaluation suite (frontend/LegalQATestSuite.js)\<close>

text \<open>An entry of the question bank, and a generated question: the entry's fields
  with an \<^verbatim>\<open>id\<close> and the \<^verbatim>\<open>category\<close>.\<close>

record entry =
  q :: string
  difficulty :: string
  expectedKeywords :: "string list"

record question = entry +
  id' :: nat
  category' :: string

definition constitutional_articles :: "entry list" where
  "constitutional_articles =
    [\<lparr>q = ''What is Article 14?'', difficulty = ''easy'',
      expectedKeywords = [''equality'', ''law'', ''discrimination'']\<rparr>,
     \<lparr>q = ''Explain Article 21 in detail'', difficulty = ''medium'',
      expectedKeywords = [''life'', ''liberty'', ''procedure'', ''law'']\<rparr>,
     \<lparr>q = ''What are the limitations of Article 19?'', difficulty = ''hard'',
      expectedKeywords = [''reasonable restrictions'', ''public order'', ''sovereignty'']\<rparr>,
     \<lparr>q = ''What is Article 32?'', difficulty = ''easy'',
      expectedKeywords = [''constitutional remedies'', ''writs'', ''fundamental rights'']\<rparr>,
     \<lparr>q = ''Difference between Article 14 and Article 15'', difficulty = ''medium'',
      expectedKeywords = [''equality'', ''discrimination'', ''grounds'']\<rparr>,
     \<lparr>q = ''What does Article 13 say?'', difficulty = ''easy'',
      expectedKeywords = [''laws inconsistent'', ''fundamental rights'', ''void'']\<rparr>,
     \<lparr>q = ''Explain Article 19(1)(a)'', difficulty = ''medium'',
      expectedKeywords = [''freedom of speech'', ''expression'']\<rparr>,
     \<lparr>q = ''What is Article 20?'', difficulty = ''easy'',
      expectedKeywords = [''protection'', ''conviction'', ''offences'']\<rparr>,
     \<lparr>q = ''What is Article 22?'', difficulty = ''medium'',
      expectedKeywords = [''arrest'', ''detention'', ''safeguards'']\<rparr>,
     \<lparr>q = ''Explain Article 12'', difficulty = ''easy'',
      expectedKeywords = [''State'', ''definition'', ''authorities'']\<rparr>,
     \<lparr>q = ''What is Article 15?'', difficulty = ''easy'',
      expectedKeywords = [''discrimination'', ''religion'', ''caste'', ''sex'']\<rparr>,
     \<lparr>q = ''What does Article 16 protect?'', difficulty = ''medium'',
      expectedKeywords = [''equality'', ''employment'', ''public'']\<rparr>,
     \<lparr>q = ''What is Article 17?'', difficulty = ''easy'',
      expectedKeywords = [''untouchability'', ''abolished'']\<rparr>,
     \<lparr>q = ''Explain Article 23'', difficulty = ''medium'',
      expectedKeywords = [''traffic'', ''human beings'', ''forced labour'']\<rparr>,
     \<lparr>q = ''What is Article 24?'', difficulty = ''easy'',
      expectedKeywords = [''children'', ''factories'', ''employment'']\<rparr>,
     \<lparr>q = ''What does Article 25 guarantee?'', difficulty = ''medium'',
      expectedKeywords = [''religion'', ''conscience'', ''practice'']\<rparr>,
     \<lparr>q = ''What is Article 26?'', difficulty = ''medium'',
      expectedKeywords = [''religious denominations'', ''affairs'', ''manage'']\<rparr>,
     \<lparr>q = ''Explain Article 29'', difficulty = ''medium'',
      expectedKeywords = [''minorities'', ''culture'', ''language'', ''script'']\<rparr>,
     \<lparr>q = ''What is Article 30?'', difficulty = ''medium'',
      expectedKeywords = [''minorities'', ''educational institutions'']\<rparr>,
     \<lparr>q = ''What is Article 44?'', difficulty = ''easy'',
      expectedKeywords = [''uniform civil code'', ''directive'']\<rparr>,
     \<lparr>q = ''Explain Article 51A'', difficulty = ''medium'',
      expectedKeywords = [''fundamental duties'', ''citizens'']\<rparr>,
     \<lparr>q = ''What is Article 124?'', difficulty = ''medium'',
      expectedKeywords = [''Supreme Court'', ''establishment'']\<rparr>,
     \<lparr>q = ''What does Article 226 provide?'', difficulty = ''medium'',
      expectedKeywords = [''High Courts'', ''writs'', ''power'']\<rparr>,
     \<lparr>q = ''What is Article 370?'', difficulty = ''hard'',
      expectedKeywords = [''Jammu Kashmir'', ''special status'', ''abrogated'']\<rparr>,
     \<lparr>q = ''Explain Article 356'', difficulty = ''hard'',
      expectedKeywords = [''President's rule'', ''emergency'', ''state'']\<rparr>]"

definition fundamental_rights :: "entry list" where
  "fundamental_rights =
    [\<lparr>q = ''List all fundamental rights'', difficulty = ''medium'',
      expectedKeywords = [''equality'', ''freedom'', ''exploitation'', ''religion'', ''cultural'', ''constitutional'']\<rparr>,
     \<lparr>q = ''What is Right to Equality?'', difficulty = ''easy'',
      expectedKeywords = [''Article 14'', ''equal protection'', ''discrimination'']\<rparr>,
     \<lparr>q = ''Can fundamental rights be suspended?'', difficulty = ''hard'',
      expectedKeywords = [''emergency'', ''Article 359'', ''Article 19'']\<rparr>,
     \<lparr>q = ''What are writs under Article 32?'', difficulty = ''medium'',
      expectedKeywords = [''habeas corpus'', ''mandamus'', ''prohibition'', ''certiorari'', ''quo warranto'']\<rparr>,
     \<lparr>q = ''What is Right to Freedom?'', difficulty = ''medium'',
      expectedKeywords = [''Article 19'', ''speech'', ''assembly'', ''movement'']\<rparr>,
     \<lparr>q = ''What is Right against Exploitation?'', difficulty = ''easy'',
      expectedKeywords = [''Article 23'', ''24'', ''traffic'', ''forced labour'', ''children'']\<rparr>,
     \<lparr>q = ''What is Right to Freedom of Religion?'', difficulty = ''medium'',
      expectedKeywords = [''Article 25-28'', ''conscience'', ''practice'', ''propagate'']\<rparr>,
     \<lparr>q = ''What are Cultural and Educational Rights?'', difficulty = ''medium'',
      expectedKeywords = [''Article 29-30'', ''minorities'', ''culture'', ''language'']\<rparr>,
     \<lparr>q = ''What is Right to Constitutional Remedies?'', difficulty = ''medium'',
      expectedKeywords = [''Article 32'', ''Supreme Court'', ''writs'', ''enforcement'']\<rparr>,
     \<lparr>q = ''Which rights cannot be suspended during emergency?'', difficulty = ''hard'',
      expectedKeywords = [''Article 20'', ''21'', ''life'', ''personal liberty'']\<rparr>,
     \<lparr>q = ''What is the difference between habeas corpus and mandamus?'', difficulty = ''hard'',
      expectedKeywords = [''detention'', ''duty'', ''public official'']\<rparr>,
     \<lparr>q = ''Can fundamental rights be amended?'', difficulty = ''hard'',
      expectedKeywords = [''Kesavananda Bharati'', ''basic structure'', ''Parliament'']\<rparr>,
     \<lparr>q = ''What is positive discrimination?'', difficulty = ''medium'',
      expectedKeywords = [''reservation'', ''affirmative action'', ''backward classes'']\<rparr>,
     \<lparr>q = ''What are reasonable restrictions?'', difficulty = ''medium'',
      expectedKeywords = [''Article 19(2)'', ''public order'', ''sovereignty'', ''decency'']\<rparr>,
     \<lparr>q = ''Can aliens claim fundamental rights?'', difficulty = ''hard'',
      expectedKeywords = [''Article 14'', ''21'', ''foreigners'', ''limited'']\<rparr>]"

definition landmark_cases :: "entry list" where
  "landmark_cases =
    [\<lparr>q = ''What is the Kesavananda Bharati case?'', difficulty = ''hard'',
      expectedKeywords = [''basic structure'', ''amendment'', ''Parliament'', ''1973'']\<rparr>,
     \<lparr>q = ''Tell me about Shreya Singhal case'', difficulty = ''medium'',
      expectedKeywords = [''Section 66A'', ''IT Act'', ''freedom of speech'', ''struck down'']\<rparr>,
     \<lparr>q = ''What is Maneka Gandhi case?'', difficulty = ''hard'',
      expectedKeywords = [''passport'', ''Article 21'', ''procedure'', ''just fair reasonable'']\<rparr>,
     \<lparr>q = ''Explain Puttaswamy case'', difficulty = ''hard'',
      expectedKeywords = [''privacy'', ''fundamental right'', ''Aadhaar'', ''9-judge'']\<rparr>,
     \<lparr>q = ''What is Golaknath case?'', difficulty = ''hard'',
      expectedKeywords = [''fundamental rights'', ''amendment'', ''prospective'']\<rparr>,
     \<lparr>q = ''What is ADM Jabalpur case?'', difficulty = ''hard'',
      expectedKeywords = [''emergency'', ''habeas corpus'', ''Article 21'', ''overruled'']\<rparr>,
     \<lparr>q = ''Explain Vishaka case'', difficulty = ''medium'',
      expectedKeywords = [''sexual harassment'', ''workplace'', ''guidelines'']\<rparr>,
     \<lparr>q = ''What is Navtej Singh Johar case?'', difficulty = ''medium'',
      expectedKeywords = [''Section 377'', ''decriminalized'', ''LGBTQ'', ''constitutional'']\<rparr>,
     \<lparr>q = ''What is Indra Sawhney case?'', difficulty = ''hard'',
      expectedKeywords = [''reservation'', ''50%'', ''creamy layer'', ''Mandal'']\<rparr>,
     \<lparr>q = ''Explain Shah Bano case'', difficulty = ''medium'',
      expectedKeywords = [''maintenance'', ''Muslim women'', ''uniform civil code'']\<rparr>,
     \<lparr>q = ''What is Minerva Mills case?'', difficulty = ''hard'',
      expectedKeywords = [''42nd Amendment'', ''judicial review'', ''limited power'']\<rparr>,
     \<lparr>q = ''What is Shayara Bano case?'', difficulty = ''medium'',
      expectedKeywords = [''triple talaq'', ''unconstitutional'', ''Muslim women'']\<rparr>,
     \<lparr>q = ''Explain Olga Tellis case'', difficulty = ''medium'',
      expectedKeywords = [''pavement dwellers'', ''livelihood'', ''Article 21'']\<rparr>,
     \<lparr>q = ''What is Bandhua Mukti Morcha case?'', difficulty = ''medium'',
      expectedKeywords = [''bonded labour'', ''Article 23'', ''rehabilitation'']\<rparr>,
     \<lparr>q = ''What is Mohini Jain case?'', difficulty = ''medium'',
      expectedKeywords = [''right to education'', ''capitation fee'', ''Article 21'']\<rparr>]"

definition ipc_sections :: "entry list" where
  "ipc_sections =
    [\<lparr>q = ''What is IPC Section 302?'', difficulty = ''easy'',
      expectedKeywords = [''murder'', ''death'', ''life imprisonment'']\<rparr>,
     \<lparr>q = ''What is IPC Section 300?'', difficulty = ''medium'',
      expectedKeywords = [''murder'', ''definition'', ''intention'', ''knowledge'']\<rparr>,
     \<lparr>q = ''What is IPC Section 304?'', difficulty = ''medium'',
      expectedKeywords = [''culpable homicide'', ''not murder'']\<rparr>,
     \<lparr>q = ''What is the punishment for theft?'', difficulty = ''easy'',
      expectedKeywords = [''Section 379'', ''imprisonment'', ''fine'']\<rparr>,
     \<lparr>q = ''What is IPC Section 420?'', difficulty = ''easy'',
      expectedKeywords = [''cheating'', ''fraud'', ''dishonestly'']\<rparr>,
     \<lparr>q = ''What is IPC Section 376?'', difficulty = ''medium'',
      expectedKeywords = [''rape'', ''sexual assault'', ''punishment'']\<rparr>,
     \<lparr>q = ''What is IPC Section 498A?'', difficulty = ''medium'',
      expectedKeywords = [''dowry'', ''cruelty'', ''husband'', ''relatives'']\<rparr>,
     \<lparr>q = ''What is IPC Section 354?'', difficulty = ''medium'',
      expectedKeywords = [''assault'', ''outrage modesty'', ''woman'']\<rparr>,
     \<lparr>q = ''What is defamation under IPC?'', difficulty = ''medium'',
      expectedKeywords = [''Section 499'', ''500'', ''reputation'']\<rparr>,
     \<lparr>q = ''What is IPC Section 506?'', difficulty = ''easy'',
      expectedKeywords = [''criminal intimidation'', ''threat'']\<rparr>,
     \<lparr>q = ''What is difference between Section 299 and 300?'', difficulty = ''hard'',
      expectedKeywords = [''culpable homicide'', ''murder'', ''intention'', ''exceptions'']\<rparr>,
     \<lparr>q = ''What is IPC Section 120B?'', difficulty = ''medium'',
      expectedKeywords = [''criminal conspiracy'', ''agreement'']\<rparr>,
     \<lparr>q = ''What is IPC Section 34?'', difficulty = ''medium'',
      expectedKeywords = [''common intention'', ''acts done'']\<rparr>,
     \<lparr>q = ''What is IPC Section 107?'', difficulty = ''medium'',
      expectedKeywords = [''abetment'', ''instigation'', ''conspiracy'']\<rparr>,
     \<lparr>q = ''What is IPC Section 511?'', difficulty = ''medium'',
      expectedKeywords = [''attempt'', ''offence'', ''punishable'']\<rparr>]"

definition crpc_sections :: "entry list" where
  "crpc_sections =
    [\<lparr>q = ''What is CrPC Section 154?'', difficulty = ''medium'',
      expectedKeywords = [''FIR'', ''information'', ''cognizable offence'']\<rparr>,
     \<lparr>q = ''What is CrPC Section 161?'', difficulty = ''medium'',
      expectedKeywords = [''examination'', ''witnesses'', ''police'']\<rparr>,
     \<lparr>q = ''What is CrPC Section 41?'', difficulty = ''medium'',
      expectedKeywords = [''arrest'', ''without warrant'', ''cognizable'']\<rparr>,
     \<lparr>q = ''What is CrPC Section 125?'', difficulty = ''medium'',
      expectedKeywords = [''maintenance'', ''wife'', ''children'', ''parents'']\<rparr>,
     \<lparr>q = ''What is CrPC Section 156?'', difficulty = ''medium'',
      expectedKeywords = [''police officer'', ''investigation'', ''cognizable'']\<rparr>,
     \<lparr>q = ''What is anticipatory bail?'', difficulty = ''medium'',
      expectedKeywords = [''Section 438'', ''arrest'', ''apprehension'']\<rparr>,
     \<lparr>q = ''What is CrPC Section 482?'', difficulty = ''hard'',
      expectedKeywords = [''High Court'', ''inherent powers'', ''quash'']\<rparr>,
     \<lparr>q = ''What is difference between cognizable and non-cognizable?'', difficulty = ''medium'',
      expectedKeywords = [''arrest'', ''warrant'', ''serious'']\<rparr>,
     \<lparr>q = ''What is CrPC Section 167?'', difficulty = ''medium'',
      expectedKeywords = [''police custody'', ''judicial custody'', ''15 days'']\<rparr>,
     \<lparr>q = ''What is CrPC Section 307?'', difficulty = ''medium'',
      expectedKeywords = [''conclusion'', ''trial'', ''acquittal'', ''conviction'']\<rparr>]"

definition legal_procedures :: "entry list" where
  "legal_procedures =
    [\<lparr>q = ''How to file an FIR?'', difficulty = ''easy'',
      expectedKeywords = [''police station'', ''written'', ''cognizable'', ''Section 154'']\<rparr>,
     \<lparr>q = ''What is the process of bail?'', difficulty = ''medium'',
      expectedKeywords = [''application'', ''court'', ''surety'', ''conditions'']\<rparr>,
     \<lparr>q = ''How does PIL work?'', difficulty = ''medium'',
      expectedKeywords = [''public interest'', ''Supreme Court'', ''High Court'', ''standing'']\<rparr>,
     \<lparr>q = ''What is the appeal process?'', difficulty = ''medium'',
      expectedKeywords = [''higher court'', ''limitation'', ''grounds'']\<rparr>,
     \<lparr>q = ''How to file a writ petition?'', difficulty = ''hard'',
      expectedKeywords = [''Article 32'', ''226'', ''Supreme Court'', ''High Court'']\<rparr>,
     \<lparr>q = ''What is investigation process?'', difficulty = ''medium'',
      expectedKeywords = [''FIR'', ''evidence'', ''chargesheet'', ''Section 173'']\<rparr>,
     \<lparr>q = ''What is trial procedure?'', difficulty = ''medium'',
      expectedKeywords = [''charges'', ''evidence'', ''examination'', ''judgment'']\<rparr>,
     \<lparr>q = ''How to file a complaint?'', difficulty = ''easy'',
      expectedKeywords = [''magistrate'', ''written'', ''non-cognizable'']\<rparr>,
     \<lparr>q = ''What is anticipatory bail procedure?'', difficulty = ''medium'',
      expectedKeywords = [''Section 438'', ''application'', ''Sessions Court'', ''High Court'']\<rparr>,
     \<lparr>q = ''What is quashing of FIR?'', difficulty = ''hard'',
      expectedKeywords = [''Section 482'', ''inherent powers'', ''abuse of process'']\<rparr>]"

definition comparative_questions :: "entry list" where
  "comparative_questions =
    [\<lparr>q = ''Difference between Article 32 and 226?'', difficulty = ''hard'',
      expectedKeywords = [''Supreme Court'', ''High Court'', ''jurisdiction'', ''writs'']\<rparr>,
     \<lparr>q = ''Difference between bail and anticipatory bail?'', difficulty = ''medium'',
      expectedKeywords = [''arrest'', ''before'', ''after'', ''conditions'']\<rparr>,
     \<lparr>q = ''Murder vs Culpable Homicide?'', difficulty = ''hard'',
      expectedKeywords = [''Section 300'', ''299'', ''intention'', ''degree'']\<rparr>,
     \<lparr>q = ''Cognizable vs Non-cognizable offence?'', difficulty = ''medium'',
      expectedKeywords = [''arrest'', ''warrant'', ''severity'']\<rparr>,
     \<lparr>q = ''Bailable vs Non-bailable offence?'', difficulty = ''easy'',
      expectedKeywords = [''bail'', ''right'', ''discretion'', ''court'']\<rparr>,
     \<lparr>q = ''FIR vs Complaint?'', difficulty = ''medium'',
      expectedKeywords = [''cognizable'', ''non-cognizable'', ''police'', ''magistrate'']\<rparr>,
     \<lparr>q = ''Summons case vs Warrant case?'', difficulty = ''medium'',
      expectedKeywords = [''procedure'', ''punishment'', ''severity'']\<rparr>,
     \<lparr>q = ''Sessions Court vs Magistrate Court?'', difficulty = ''medium'',
      expectedKeywords = [''jurisdiction'', ''punishment'', ''powers'']\<rparr>,
     \<lparr>q = ''Supreme Court vs High Court?'', difficulty = ''easy'',
      expectedKeywords = [''apex'', ''state'', ''jurisdiction'', ''appeals'']\<rparr>,
     \<lparr>q = ''Civil law vs Criminal law?'', difficulty = ''easy'',
      expectedKeywords = [''dispute'', ''crime'', ''punishment'', ''compensation'']\<rparr>]"

definition scenario_based :: "entry list" where
  "scenario_based =
    [\<lparr>q = ''What happens if I kill someone?'', difficulty = ''medium'',
      expectedKeywords = [''Section 302'', ''murder'', ''punishment'', ''life imprisonment'', ''death'']\<rparr>,
     \<lparr>q = ''What to do if arrested?'', difficulty = ''medium'',
      expectedKeywords = [''rights'', ''bail'', ''lawyer'', ''remain silent'']\<rparr>,
     \<lparr>q = ''Can police arrest without warrant?'', difficulty = ''medium'',
      expectedKeywords = [''cognizable'', ''Section 41'', ''conditions'']\<rparr>,
     \<lparr>q = ''What if someone cheats me?'', difficulty = ''easy'',
      expectedKeywords = [''Section 420'', ''complaint'', ''FIR'', ''fraud'']\<rparr>,
     \<lparr>q = ''What happens if I commit fraud?'', difficulty = ''medium'',
      expectedKeywords = [''Section 420'', ''punishment'', ''imprisonment'', ''fine'']\<rparr>,
     \<lparr>q = ''Can I get bail in murder case?'', difficulty = ''hard'',
      expectedKeywords = [''non-bailable'', ''discretion'', ''court'', ''conditions'']\<rparr>,
     \<lparr>q = ''What to do in false FIR?'', difficulty = ''medium'',
      expectedKeywords = [''quash'', ''Section 482'', ''anticipatory bail'']\<rparr>,
     \<lparr>q = ''Rights during police custody?'', difficulty = ''medium'',
      expectedKeywords = [''lawyer'', ''medical'', ''inform'', ''24 hours'']\<rparr>,
     \<lparr>q = ''What if defamed on social media?'', difficulty = ''medium'',
      expectedKeywords = [''Section 499'', ''500'', ''IT Act'', ''defamation'']\<rparr>,
     \<lparr>q = ''Can I refuse to give statement to police?'', difficulty = ''medium'',
      expectedKeywords = [''right to silence'', ''self-incrimination'', ''Article 20(3)'']\<rparr>]"

definition rights_based :: "entry list" where
  "rights_based =
    [\<lparr>q = ''What are my rights during arrest?'', difficulty = ''medium'',
      expectedKeywords = [''informed'', ''grounds'', ''bail'', ''lawyer'', ''medical'']\<rparr>,
     \<lparr>q = ''Do I have right to remain silent?'', difficulty = ''medium'',
      expectedKeywords = [''Article 20(3)'', ''self-incrimination'', ''protection'']\<rparr>,
     \<lparr>q = ''Can police search my house?'', difficulty = ''medium'',
      expectedKeywords = [''warrant'', ''Section 100'', ''privacy'', ''conditions'']\<rparr>,
     \<lparr>q = ''What is right to fair trial?'', difficulty = ''medium'',
      expectedKeywords = [''Article 21'', ''legal aid'', ''speedy trial'', ''due process'']\<rparr>,
     \<lparr>q = ''Can I record police?'', difficulty = ''medium'',
      expectedKeywords = [''right'', ''evidence'', ''transparency'', ''limitations'']\<rparr>,
     \<lparr>q = ''Right to lawyer during interrogation?'', difficulty = ''medium'',
      expectedKeywords = [''Article 22'', ''consultation'', ''present'']\<rparr>,
     \<lparr>q = ''Can police torture suspects?'', difficulty = ''easy'',
      expectedKeywords = [''illegal'', ''Article 21'', ''human rights'', ''custodial violence'']\<rparr>,
     \<lparr>q = ''What is right to privacy?'', difficulty = ''medium'',
      expectedKeywords = [''Puttaswamy'', ''fundamental right'', ''Article 21'', ''informational'']\<rparr>,
     \<lparr>q = ''Can I refuse to give fingerprints?'', difficulty = ''hard'',
      expectedKeywords = [''Section 53'', ''reasonable'', ''investigation'', ''evidence'']\<rparr>,
     \<lparr>q = ''Right to free legal aid?'', difficulty = ''medium'',
      expectedKeywords = [''Article 39A'', ''poor'', ''legal services authority'']\<rparr>]"

definition edge_cases :: "entry list" where
  "edge_cases =
    [\<lparr>q = ''Can a minor be tried for murder?'', difficulty = ''hard'',
      expectedKeywords = [''Juvenile Justice Act'', ''POCSO'', ''reformation'', ''16-18'']\<rparr>,
     \<lparr>q = ''What if accused is mentally ill?'', difficulty = ''hard'',
      expectedKeywords = [''Section 84'', ''unsound mind'', ''incapacity'']\<rparr>,
     \<lparr>q = ''Can dying declaration be sole evidence?'', difficulty = ''hard'',
      expectedKeywords = [''Section 32'', ''corroboration'', ''reliable'', ''trustworthy'']\<rparr>,
     \<lparr>q = ''Is suicide illegal in India?'', difficulty = ''medium'',
      expectedKeywords = [''decriminalized'', ''Section 309'', ''mental health'']\<rparr>,
     \<lparr>q = ''Can confession to police be used?'', difficulty = ''hard'',
      expectedKeywords = [''Section 25'', ''inadmissible'', ''magistrate'', ''judicial'']\<rparr>,
     \<lparr>q = ''What is plea bargaining?'', difficulty = ''hard'',
      expectedKeywords = [''Chapter XXIA'', ''negotiation'', ''lesser sentence'', ''voluntary'']\<rparr>,
     \<lparr>q = ''Can video evidence be used?'', difficulty = ''medium'',
      expectedKeywords = [''Section 65B'', ''certificate'', ''electronic'', ''authentic'']\<rparr>,
     \<lparr>q = ''What is narco test?'', difficulty = ''hard'',
      expectedKeywords = [''consent'', ''unconstitutional'', ''self-incrimination'', ''investigation'']\<rparr>,
     \<lparr>q = ''Can property be seized before conviction?'', difficulty = ''hard'',
      expectedKeywords = [''provisional attachment'', ''PMLA'', ''investigation'', ''court order'']\<rparr>,
     \<lparr>q = ''What is compoundable offence?'', difficulty = ''medium'',
      expectedKeywords = [''settlement'', ''compromise'', ''permission'', ''court'']\<rparr>]"

definition questionBank :: "(string \<times> entry list) list" where
  "questionBank =
    [(''constitutional_articles'', constitutional_articles),
     (''fundamental_rights'', fundamental_rights),
     (''landmark_cases'', landmark_cases),
     (''ipc_sections'', ipc_sections),
     (''crpc_sections'', crpc_sections),
     (''legal_procedures'', legal_procedures),
     (''comparative_questions'', comparative_questions),
     (''scenario_based'', scenario_based),
     (''rights_based'', rights_based),
     (''edge_cases'', edge_cases)]"

text \<open>\<^verbatim>\<open>toLowerCase\<close>. Among the code units \<open>0..255\<close> the capital letters are \<open>A\<close> to
  \<open>Z\<close> (\<open>65..90\<close>) and the Latin-1 capitals \<open>0xC0\<close> to \<open>0xDE\<close> without the
  multiplication sign \<open>0xD7\<close> (\<open>192..214\<close> and \<open>216..222\<close>); the small letter of each
  is 32 places on. Every other code unit of the range stays.\<close>

definition lower_char :: "char \<Rightarrow> char" where
  "lower_char c =
     (let n = of_char c :: nat
      in if (65 \<le> n \<and> n \<le> 90) \<or> (192 \<le> n \<and> n \<le> 214) \<or> (216 \<le> n \<and> n \<le> 222)
         then char_of (n + 32) else c)"

definition toLowerCase :: "string \<Rightarrow> string" where
  "toLowerCase s = map lower_char s"

definition variations :: "string list" where
  "variations =
     [''Explain in detail: '',
      ''What are the key points of '',
      ''Briefly describe '',
      ''What is the importance of '',
      ''What are the limitations of '',
      ''How does the court interpret '',
      ''What are recent developments in '',
      ''Critically analyze '']"

text \<open>The two loops of \<^verbatim>\<open>generateAllQuestions\<close> carry \<^verbatim>\<open>allQuestions\<close> and the next
  \<^verbatim>\<open>id\<close>.\<close>

fun push_questions :: "string \<Rightarrow> entry list \<Rightarrow> question list \<times> nat \<Rightarrow> question list \<times> nat" where
  "push_questions cat [] st = st"
| "push_questions cat (e # es) (allQuestions, i) =
     push_questions cat es
       (allQuestions @ [\<lparr>q = q e, difficulty = difficulty e, expectedKeywords = expectedKeywords e,
                          id' = i, category' = cat\<rparr>], i + 1)"

fun push_bank :: "(string \<times> entry list) list \<Rightarrow> question list \<times> nat \<Rightarrow> question list \<times> nat" where
  "push_bank [] st = st"
| "push_bank ((cat, questions) # bank) st = push_bank bank (push_questions cat questions st)"

definition variation_of :: "nat \<Rightarrow> nat \<Rightarrow> question \<Rightarrow> question" where
  "variation_of i idx base =
     \<lparr>q = variations ! (idx mod length variations) @ toLowerCase (q base),
      difficulty = difficulty base,
      expectedKeywords = expectedKeywords base,
      id' = i,
      category' = category' base\<rparr>"

fun add_variations :: "question list \<Rightarrow> nat \<Rightarrow> question list \<times> nat \<Rightarrow> question list \<times> nat" where
  "add_variations [] idx st = st"
| "add_variations (base # rest) idx (allQuestions, i) =
     add_variations rest (idx + 1)
       (if idx mod 3 = 0 \<and> length allQuestions < 1100
        then (allQuestions @ [variation_of i idx base], i + 1)
        else (allQuestions, i))"

definition generate_from :: "(string \<times> entry list) list \<Rightarrow> question list" where
  "generate_from bank =
     (let (baseQuestions, i) = push_bank bank ([], 1)
      in fst (add_variations baseQuestions 0 (baseQuestions, i)))"

definition generateAllQuestions :: "question list" where
  "generateAllQuestions = generate_from questionBank"



text \<open>What the two loops compute, without the accumulator.\<close>

fun numbered :: "string \<Rightarrow> nat \<Rightarrow> entry list \<Rightarrow> question list" where
  "numbered cat i [] = []"
| "numbered cat i (e # es) =
     \<lparr>q = q e, difficulty = difficulty e, expectedKeywords = expectedKeywords e,
      id' = i, category' = cat\<rparr> # numbered cat (i + 1) es"

fun numbered_bank :: "nat \<Rightarrow> (string \<times> entry list) list \<Rightarrow> question list" where
  "numbered_bank i [] = []"
| "numbered_bank i ((cat, questions) # bank) =
     numbered cat i questions @ numbered_bank (i + length questions) bank"

fun every_third :: "nat \<Rightarrow> nat \<Rightarrow> question list \<Rightarrow> question list" where
  "every_third i idx [] = []"
| "every_third i idx (base # rest) =
     (if idx mod 3 = 0 then variation_of i idx base # every_third (i + 1) (idx + 1) rest
      else every_third i (idx + 1) rest)"

lemma length_numbered: "length (numbered cat i es) = length es"
  by (induction es arbitrary: i) auto

lemma push_questions_eq:
  "push_questions cat es (allQuestions, i) = (allQuestions @ numbered cat i es, i + length es)"
  by (induction es arbitrary: allQuestions i) auto

lemma length_numbered_bank: "length (numbered_bank i bank) = length (concat (map snd bank))"
  by (induction i bank rule: numbered_bank.induct) (auto simp: length_numbered)

lemma push_bank_eq:
  "push_bank bank (allQuestions, i) =
     (allQuestions @ numbered_bank i bank, i + length (concat (map snd bank)))"
  by (induction bank arbitrary: allQuestions i) (auto simp: push_questions_eq)

lemma length_every_third_le: "length (every_third i idx bs) \<le> length bs"
  by (induction bs arbitrary: i idx) (auto simp: le_SucI)

lemma add_variations_eq:
  assumes "length allQuestions + length bs \<le> 1100"
  shows "add_variations bs idx (allQuestions, i) =
           (allQuestions @ every_third i idx bs, i + length (every_third i idx bs))"
  using assms by (induction bs arbitrary: allQuestions i idx) auto

lemma generate_from_eq:
  assumes "2 * length (concat (map snd bank)) \<le> 1100"
  shows "generate_from bank =
           numbered_bank 1 bank
           @ every_third (1 + length (concat (map snd bank))) 0 (numbered_bank 1 bank)"
  using assms
  by (simp add: generate_from_def push_bank_eq add_variations_eq length_numbered_bank)

lemma ids_numbered: "map id' (numbered cat i es) = [i..<i + length es]"
  by (induction es arbitrary: i) (simp_all add: upt_conv_Cons del: upt_Suc)

lemma ids_numbered_bank:
  "map id' (numbered_bank i bank) = [i..<i + length (concat (map snd bank))]"
proof (induction i bank rule: numbered_bank.induct)
  case (1 i)
  then show ?case by simp
next
  case (2 i cat questions bank)
  let ?a = "length questions" and ?b = "length (concat (map snd bank))"
  have "map id' (numbered_bank i ((cat, questions) # bank))
      = [i..<i + ?a] @ [i + ?a..<i + ?a + ?b]"
    using 2 by (simp add: ids_numbered)
  also have "\<dots> = [i..<i + ?a + ?b]"
    using upt_add_eq_append [of i "i + ?a" ?b] by simp
  also have "i + ?a + ?b = i + length (concat (map snd ((cat, questions) # bank)))"
    by simp
  finally show ?case .
qed

lemma ids_every_third:
  "map id' (every_third i idx bs) = [i..<i + length (every_third i idx bs)]"
  by (induction bs arbitrary: i idx) (simp_all add: upt_conv_Cons variation_of_def del: upt_Suc)

lemma length_every_third:
  "length (every_third i idx bs) = length (filter (\<lambda>j. j mod 3 = 0) [idx..<idx + length bs])"
  by (induction bs arbitrary: i idx) (simp_all add: upt_conv_Cons del: upt_Suc)

lemma every_third_nth:
  assumes "idx mod 3 = 0" and "3 * k < length bs"
  shows "every_third i idx bs ! k = variation_of (i + k) (idx + 3 * k) (bs ! (3 * k))"
  using assms
proof (induction k arbitrary: i idx bs)
  case 0
  then obtain b rest where "bs = b # rest" by (cases bs) auto
  with 0 show ?case by simp
next
  case (Suc k)
  have three: "3 * Suc k = Suc (Suc (Suc (3 * k)))"
    by simp
  from Suc.prems(2) obtain b0 bs1 where bs0: "bs = b0 # bs1"
    by (cases bs) auto
  with Suc.prems(2) obtain b1 bs2 where bs1: "bs1 = b1 # bs2"
    by (cases bs1) auto
  with bs0 Suc.prems(2) obtain b2 rest where bs2: "bs2 = b2 # rest"
    by (cases bs2) auto
  have len: "3 * k < length rest"
    using Suc.prems(2) by (simp add: bs0 bs1 bs2)
  from Suc.prems(1) have m: "Suc idx mod 3 \<noteq> 0" "Suc (Suc idx) mod 3 \<noteq> 0"
      "Suc (Suc (Suc idx)) mod 3 = 0"
    by presburger+
  have unfold: "every_third i idx bs
      = variation_of i idx b0 # every_third (Suc i) (Suc (Suc (Suc idx))) rest"
    using Suc.prems(1) m(1,2) by (simp add: bs0 bs1 bs2)
  have "every_third i idx bs ! Suc k = every_third (Suc i) (Suc (Suc (Suc idx))) rest ! k"
    by (simp add: unfold)
  also have "\<dots> = variation_of (Suc i + k) (Suc (Suc (Suc idx)) + 3 * k) (rest ! (3 * k))"
    by (rule Suc.IH [OF m(3) len])
  also have "rest ! (3 * k) = bs ! (3 * Suc k)"
    unfolding three by (simp add: bs0 bs1 bs2)
  also have "Suc (Suc (Suc idx)) + 3 * k = idx + 3 * Suc k"
    by simp
  also have "Suc i + k = i + Suc k"
    by simp
  finally show ?case .
qed


lemma truncate_numbered: "map entry.truncate (numbered cat i es) = es"
  by (induction es arbitrary: i) (auto simp: entry.truncate_def)

lemma truncate_numbered_bank: "map entry.truncate (numbered_bank i bank) = concat (map snd bank)"
  by (induction i bank rule: numbered_bank.induct) (auto simp: truncate_numbered)

lemma category_numbered: "map category' (numbered cat i es) = replicate (length es) cat"
  by (induction es arbitrary: i) auto

lemma category_numbered_bank:
  "map category' (numbered_bank i bank) =
     concat (map (\<lambda>(cat, questions). replicate (length questions) cat) bank)"
  by (induction i bank rule: numbered_bank.induct) (auto simp: category_numbered)

lemma length_categories:
  "length constitutional_articles = 25"
  "length fundamental_rights = 15"
  "length landmark_cases = 15"
  "length ipc_sections = 15"
  "length crpc_sections = 10"
  "length legal_procedures = 10"
  "length comparative_questions = 10"
  "length scenario_based = 10"
  "length rights_based = 10"
  "length edge_cases = 10"
  by (simp_all add: constitutional_articles_def fundamental_rights_def landmark_cases_def ipc_sections_def crpc_sections_def legal_procedures_def comparative_questions_def scenario_based_def rights_based_def edge_cases_def)

lemma length_questionBank: "length (concat (map snd questionBank)) = 130"
  by (simp add: questionBank_def length_categories)

lemma thirds_below_130: "length (filter (\<lambda>j. j mod 3 = 0) [0..<130]) = 44"
  by code_simp

lemma generateAllQuestions_split:
  "generateAllQuestions =
     numbered_bank 1 questionBank @ every_third 131 0 (numbered_bank 1 questionBank)"
  using generate_from_eq [of questionBank]
  by (simp add: generateAllQuestions_def length_questionBank)

lemma length_base: "length (numbered_bank i questionBank) = 130"
  by (simp add: length_numbered_bank length_questionBank)

lemma length_variations: "length (every_third i 0 (numbered_bank j questionBank)) = 44"
  using thirds_below_130 by (simp add: length_every_third length_base)

lemma length_variations_prefixes: "length variations = 8"
  by (simp add: variations_def)

text \<open>
  C10. \<open>generateAllQuestions\<close> is one fixed list of 174 questions, fewer than the
  1000 the component announces: first the 130 entries of the question bank, each
  under its category, then 44 variations. The \<open>k\<close>-th variation rephrases base
  question \<open>3 * k\<close>: its text is the prefix \<open>variations ! (3 * k mod 8)\<close> followed by
  the base question's text in lower case, and it keeps the base question's
  difficulty, expected keywords and category. The ids run from 1 to 174, so no two
  questions share one.
\<close>

theorem generateAllQuestions_fixed:
  "length (concat (map snd questionBank)) = 130
   \<and> map entry.truncate (take 130 generateAllQuestions) = concat (map snd questionBank)
   \<and> map category' (take 130 generateAllQuestions) =
       concat (map (\<lambda>(cat, questions). replicate (length questions) cat) questionBank)
   \<and> drop 130 generateAllQuestions =
       map (\<lambda>k. \<lparr>q = variations ! (3 * k mod 8) @ toLowerCase (q (generateAllQuestions ! (3 * k))),
                  difficulty = difficulty (generateAllQuestions ! (3 * k)),
                  expectedKeywords = expectedKeywords (generateAllQuestions ! (3 * k)),
                  id' = 131 + k,
                  category' = category' (generateAllQuestions ! (3 * k))\<rparr>) [0..<44]
   \<and> length generateAllQuestions = 174
   \<and> length generateAllQuestions < 1000
   \<and> map id' generateAllQuestions = [1..<175]
   \<and> distinct (map id' generateAllQuestions)"
proof -
  let ?B = "numbered_bank 1 questionBank"
  let ?V = "every_third 131 0 ?B"
  let ?f = "\<lambda>k. \<lparr>q = variations ! (3 * k mod 8) @ toLowerCase (q (generateAllQuestions ! (3 * k))),
                  difficulty = difficulty (generateAllQuestions ! (3 * k)),
                  expectedKeywords = expectedKeywords (generateAllQuestions ! (3 * k)),
                  id' = 131 + k,
                  category' = category' (generateAllQuestions ! (3 * k))\<rparr>"
  note G = generateAllQuestions_split
  have take: "take 130 generateAllQuestions = ?B" and drop: "drop 130 generateAllQuestions = ?V"
    by (simp_all add: G length_base)
  have len: "length generateAllQuestions = 174"
    by (simp add: G length_base length_variations)
  have vars: "?V = map ?f [0..<44]"
  proof (rule nth_equalityI)
    show "length ?V = length (map ?f [0..<44])"
      by (simp add: length_variations)
  next
    fix k assume "k < length ?V"
    then have k: "k < 44" by (simp add: length_variations)
    then have k3: "3 * k < length ?B" by (simp add: length_base)
    have "?V ! k = variation_of (131 + k) (0 + 3 * k) (?B ! (3 * k))"
      by (rule every_third_nth [OF _ k3]) simp
    moreover have "generateAllQuestions ! (3 * k) = ?B ! (3 * k)"
      using k3 by (simp add: G nth_append)
    ultimately have "?V ! k = ?f k"
      by (simp add: variation_of_def length_variations_prefixes)
    then show "?V ! k = map ?f [0..<44] ! k"
      using k by simp
  qed
  have "map id' generateAllQuestions = [1..<1 + 130] @ [131..<131 + 44]"
    using ids_numbered_bank [of 1 questionBank] ids_every_third [of 131 0 ?B]
    by (simp add: G length_questionBank length_variations)
  also have "\<dots> = [1..<175]"
    using upt_add_eq_append [of 1 131 44] by simp
  finally have ids: "map id' generateAllQuestions = [1..<175]" .
  show ?thesis
    using length_questionBank take drop vars len ids
    by (simp add: truncate_numbered_bank category_numbered_bank)
qed

lemma generateAllQuestions_first:
  "generateAllQuestions ! 0 =
     \<lparr>q = ''What is Article 14?'', difficulty = ''easy'',
      expectedKeywords = [''equality'', ''law'', ''discrimination''], id' = 1,
      category' = ''constitutional_articles''\<rparr>"
  by (simp add: generateAllQuestions_split questionBank_def constitutional_articles_def)

lemma questionBank_last: "concat (map snd questionBank) ! 129 =
   \<lparr>q = ''What is compoundable offence?'', difficulty = ''medium'',
    expectedKeywords = [''settlement'', ''compromise'', ''permission'', ''court'']\<rparr>"
  by code_simp

lemma toLowerCase_first: "toLowerCase ''What is Article 14?'' = ''what is article 14?''"
  by code_simp

lemma questionBank_last_category:
  "concat (map (\<lambda>(cat, questions). replicate (length questions) cat) questionBank) ! 129 = ''edge_cases''"
  by code_simp

lemma toLowerCase_last: "toLowerCase ''What is compoundable offence?'' = ''what is compoundable offence?''"
  by code_simp

theorem generateAllQuestions_fixed_witness:
  "generateAllQuestions ! 0 =
     \<lparr>q = ''What is Article 14?'', difficulty = ''easy'',
      expectedKeywords = [''equality'', ''law'', ''discrimination''], id' = 1,
      category' = ''constitutional_articles''\<rparr>
   \<and> generateAllQuestions ! 130 =
     \<lparr>q = ''Explain in detail: what is article 14?'', difficulty = ''easy'',
      expectedKeywords = [''equality'', ''law'', ''discrimination''], id' = 131,
      category' = ''constitutional_articles''\<rparr>
   \<and> entry.truncate (generateAllQuestions ! 129) =
     \<lparr>q = ''What is compoundable offence?'', difficulty = ''medium'',
      expectedKeywords = [''settlement'', ''compromise'', ''permission'', ''court'']\<rparr>
   \<and> generateAllQuestions ! 173 =
     \<lparr>q = ''What are the key points of what is compoundable offence?'', difficulty = ''medium'',
      expectedKeywords = [''settlement'', ''compromise'', ''permission'', ''court''], id' = 174,
      category' = ''edge_cases''\<rparr>"
proof -
  note t = generateAllQuestions_fixed
  let ?f = "\<lambda>k. \<lparr>q = variations ! (3 * k mod 8) @ toLowerCase (q (generateAllQuestions ! (3 * k))),
                  difficulty = difficulty (generateAllQuestions ! (3 * k)),
                  expectedKeywords = expectedKeywords (generateAllQuestions ! (3 * k)),
                  id' = 131 + k,
                  category' = category' (generateAllQuestions ! (3 * k))\<rparr>"
  from t have len: "length generateAllQuestions = 174"
    and vars: "drop 130 generateAllQuestions = map ?f [0..<44]"
    and bank: "map entry.truncate (take 130 generateAllQuestions) = concat (map snd questionBank)"
    and cats: "map category' (take 130 generateAllQuestions) =
       concat (map (\<lambda>(cat, questions). replicate (length questions) cat) questionBank)"
    by blast+
  have var: "generateAllQuestions ! (130 + k) = ?f k" if "k < 44" for k
  proof -
    have "generateAllQuestions ! (130 + k) = drop 130 generateAllQuestions ! k"
      using len by simp
    also have "\<dots> = ?f k"
      unfolding vars using that by simp
    finally show ?thesis .
  qed
  have "entry.truncate (generateAllQuestions ! 129) = map entry.truncate (take 130 generateAllQuestions) ! 129"
    using len by simp
  then have e129: "entry.truncate (generateAllQuestions ! 129) =
     \<lparr>q = ''What is compoundable offence?'', difficulty = ''medium'',
      expectedKeywords = [''settlement'', ''compromise'', ''permission'', ''court'']\<rparr>"
    unfolding bank questionBank_last .
  have "category' (generateAllQuestions ! 129) = map category' (take 130 generateAllQuestions) ! 129"
    using len by simp
  then have c129: "category' (generateAllQuestions ! 129) = ''edge_cases''"
    unfolding cats questionBank_last_category .
  from e129 have f129: "q (generateAllQuestions ! 129) = ''What is compoundable offence?''"
    "difficulty (generateAllQuestions ! 129) = ''medium''"
    "expectedKeywords (generateAllQuestions ! 129) = [''settlement'', ''compromise'', ''permission'', ''court'']"
    by (simp_all add: entry.truncate_def)
  have g130: "generateAllQuestions ! 130 =
     \<lparr>q = ''Explain in detail: what is article 14?'', difficulty = ''easy'',
      expectedKeywords = [''equality'', ''law'', ''discrimination''], id' = 131,
      category' = ''constitutional_articles''\<rparr>"
    using var [of 0] by (simp add: generateAllQuestions_first variations_def toLowerCase_first)
  have g173: "generateAllQuestions ! 173 =
     \<lparr>q = ''What are the key points of what is compoundable offence?'', difficulty = ''medium'',
      expectedKeywords = [''settlement'', ''compromise'', ''permission'', ''court''], id' = 174,
      category' = ''edge_cases''\<rparr>"
    using var [of 43] by (simp add: f129 c129 variations_def toLowerCase_last)
  from generateAllQuestions_first g130 e129 g173 show ?thesis
    by (intro conjI)
qed

subsection \<open>JavaScript numbers\<close>

text \<open>
  A JavaScript number other than NaN and the infinities is a rational number, and an
  arithmetic operation returns the exact result rounded to the nearest double: 53
  significant bits, ties to the even significand. The exponent is not bounded here;
  the quotient of two array lengths (below \<open>2 ^ 32\<close>) and its product with \<open>100\<close>
  are far from overflow and underflow. \<open>js_round\<close> is \<^verbatim>\<open>Math.round\<close>: the nearest
  integer, a tie going up.
\<close>

definition round_half_even :: "rat \<Rightarrow> int" where
  "round_half_even k =
     (let f = \<lfloor>k\<rfloor>; d = k - of_int f
      in if d < 1 / 2 then f else if 1 / 2 < d then f + 1 else if even f then f else f + 1)"

definition exponent :: "rat \<Rightarrow> int" where
  "exponent x =
     (case quotient_of x of (a, b) \<Rightarrow>
        let e = bitlen a - bitlen b in if 2 powi e \<le> x then e else e - 1)"

definition ulp :: "rat \<Rightarrow> rat" where
  "ulp x = 2 powi (exponent x - 52)"

definition double_round :: "rat \<Rightarrow> rat" where
  "double_round x =
     (if x = 0 then 0
      else sgn x * of_int (round_half_even (\<bar>x\<bar> / ulp \<bar>x\<bar>)) * ulp \<bar>x\<bar>)"

definition js_round :: "rat \<Rightarrow> int" where
  "js_round x = \<lfloor>x + 1 / 2\<rfloor>"


subsection \<open>Properties of the rounding\<close>


























subsection \<open>\<^verbatim>\<open>evaluateResponse\<close>\<close>

text \<open>
  \<^verbatim>\<open>String.includes\<close> is \<open>sublist\<close>, \<^verbatim>\<open>Array.includes\<close> is membership. The score is
  \<^verbatim>\<open>Math.round((matchedKeywords.length / expectedKeywords.length) * 100)\<close>; for an
  empty list \<open>0 / 0\<close> is NaN (\<open>None\<close>), and every comparison with NaN is false.
\<close>

record evaluation =
  score :: "int option"
  matchedKeywords :: "string list"
  missedKeywords :: "string list"
  quality :: string

definition evaluateResponse :: "string \<Rightarrow> string list \<Rightarrow> evaluation" where
  "evaluateResponse response expected =
     (let responseLower = toLowerCase response;
          matched = filter (\<lambda>keyword. sublist (toLowerCase keyword) responseLower) expected;
          raw = (if expected = [] then None
                 else Some (double_round
                   (double_round (of_nat (length matched) / of_nat (length expected)) * 100)))
      in \<lparr>score = map_option js_round raw,
          matchedKeywords = matched,
          missedKeywords = filter (\<lambda>k. k \<notin> set matched) expected,
          quality = (case raw of
                       None \<Rightarrow> ''poor''
                     | Some s \<Rightarrow> if 80 \<le> s then ''excellent'' else if 60 \<le> s then ''good''
                                else if 40 \<le> s then ''average'' else ''poor'')\<rparr>)"

subsection \<open>Properties of \<^verbatim>\<open>evaluateResponse\<close>\<close>

text \<open>The case of a letter does not count, of a Latin-1 letter either; the
  multiplication sign and the sharp s have no other case.\<close>

lemma toLowerCase_latin1:
  "toLowerCase [CHR ''A'', CHR ''z'', CHR 0xC9, CHR 0xD7, CHR 0xDE, CHR 0xDF] =
     [CHR ''a'', CHR ''z'', CHR 0xE9, CHR 0xD7, CHR 0xFE, CHR 0xDF]"
  by code_simp

lemma evaluateResponse_latin1:
  "matchedKeywords (evaluateResponse [CHR 0xC9] [[CHR 0xE9]]) = [[CHR 0xE9]]"
  by code_simp









end
